theory Spec2Isabelle
  imports Complex_Main "HOL-Library.Word"
begin

section \<open>Python values shared by both modules\<close>

text \<open>
  The exceptions that the two modules raise or that can travel through them. The
  handlers of \<^verbatim>\<open>cinema_driver.py\<close> are written \<^verbatim>\<open>except Exception\<close>, so the
  model keeps the one distinction of Python's class hierarchy that such a handler
  looks at: \<^verbatim>\<open>SystemExit\<close> and \<^verbatim>\<open>KeyboardInterrupt\<close> derive from
  \<^verbatim>\<open>BaseException\<close> only. \<open>UserException\<close> stands for an instance of a subclass of
  \<^verbatim>\<open>Exception\<close> defined by the caller: its \<^verbatim>\<open>__str__\<close> returns the given string, or
  returns no string at all (\<open>None\<close>), in which case formatting the exception raises
  \<^verbatim>\<open>TypeError\<close>. The message texts of the source are Chinese; the strings below are
  their English renderings.
\<close>

datatype py_exc =
    Exception string
  | ValueError string
  | AttributeError string
  | ZeroDivisionError string
  | Cv2Error string
  | TypeError string
  | RuntimeError string
  | UserException "string option"
  | SystemExit
  | KeyboardInterrupt

text \<open>\<^verbatim>\<open>isinstance(e, Exception)\<close>: what an \<^verbatim>\<open>except Exception\<close> clause catches.\<close>

fun is_Exception :: "py_exc \<Rightarrow> bool" where
  "is_Exception SystemExit = False"
| "is_Exception KeyboardInterrupt = False"
| "is_Exception (Exception m) = True"
| "is_Exception (ValueError m) = True"
| "is_Exception (AttributeError m) = True"
| "is_Exception (ZeroDivisionError m) = True"
| "is_Exception (Cv2Error m) = True"
| "is_Exception (TypeError m) = True"
| "is_Exception (RuntimeError m) = True"
| "is_Exception (UserException m) = True"

text \<open>\<^verbatim>\<open>str(e)\<close>, which the f-strings of the log messages call on the exception they
  format: the text, or the exception that formatting raises.\<close>

fun str_exc :: "py_exc \<Rightarrow> py_exc + string" where
  "str_exc (UserException None) = Inl (TypeError ''__str__ returned non-string'')"
| "str_exc (UserException (Some m)) = Inr m"
| "str_exc (Exception m) = Inr m"
| "str_exc (ValueError m) = Inr m"
| "str_exc (AttributeError m) = Inr m"
| "str_exc (ZeroDivisionError m) = Inr m"
| "str_exc (Cv2Error m) = Inr m"
| "str_exc (TypeError m) = Inr m"
| "str_exc (RuntimeError m) = Inr m"
| "str_exc SystemExit = Inr []"
| "str_exc KeyboardInterrupt = Inr []"

text \<open>An image: a numpy array of unsigned bytes with its shape.\<close>

record frame =
  rows :: nat
  cols :: nat
  channels :: nat
  pixels :: "8 word list"

section \<open>cinema\_driver.py: the class CinemaDriver\<close>

subsection \<open>State and effects\<close>

datatype cap_prop =
    CAP_PROP_FRAME_WIDTH
  | CAP_PROP_FRAME_HEIGHT
  | CAP_PROP_FPS
  | CAP_PROP_EXPOSURE
  | CAP_PROP_WHITE_BALANCE_BLUE_U
  | CAP_PROP_BRIGHTNESS
  | CAP_PROP_CONTRAST

datatype log_level = INFO | WARNING | ERROR

text \<open>One constructor for each message that the driver logs, with the values that the
  source formats into it.\<close>

datatype log_msg =
    Initializing
  | Initialized int int int int
  | NotInitialized
  | UnknownParam string
  | ParamsUpdated
  | ThreadStarted
  | ReadFailed nat
  | Reinitializing
  | ReinitFailed py_exc
  | CallbackFailed py_exc
  | ThreadStopped
  | Released

text \<open>
  Everything the driver does to the outside world, in the order in which it does it:
  calls on the \<^verbatim>\<open>cv2.VideoCapture\<close> object, \<^verbatim>\<open>time.sleep\<close>, \<^verbatim>\<open>logging\<close>, the
  registered callback, and the start and the join of a thread.
\<close>

datatype event =
    VideoCapture_new int bool
  | Cap_set cap_prop int
  | Cap_read
  | Cap_release
  | Sleep rat
  | Logging log_level log_msg
  | Callback_call frame
  | Thread_start nat
  | Thread_join nat

text \<open>The \<^verbatim>\<open>cv2.VideoCapture\<close> object held in \<^verbatim>\<open>self.cap\<close>.\<close>

datatype video_capture = VideoCapture (isOpened: bool)

text \<open>How a call of the registered callback ends: it returns or it raises.\<close>

datatype cb_outcome = Returns | Raises py_exc

text \<open>
  The attributes of \<^verbatim>\<open>CinemaDriver\<close>, followed by three fields of the model:
  \<open>trace\<close> collects the effects, \<open>opened\<close> counts the \<^verbatim>\<open>VideoCapture\<close> objects
  constructed so far and \<open>threads\<close> the threads started so far. The callable in
  \<^verbatim>\<open>self.callback\<close> is a reference of type \<open>'c\<close> to code outside the class.
\<close>

record 'c driver =
  camera_id :: int
  width :: int
  height :: int
  fps :: int
  exposure :: int
  white_balance :: int
  brightness :: int
  contrast :: int
  cap :: "video_capture option"
  running :: bool
  capture_thread :: "nat option"
  callback :: "'c option"
  fail_count :: nat
  trace :: "event list"
  opened :: nat
  threads :: nat

text \<open>
  The camera is outside the program. \<open>dev n\<close> tells whether the \<open>n\<close>-th
  \<^verbatim>\<open>VideoCapture\<close> object constructed reports \<^verbatim>\<open>isOpened()\<close>; the results of
  \<^verbatim>\<open>cap.read()\<close> are given to the loop as a list of pairs \<^verbatim>\<open>(ret, frame)\<close>.
\<close>

type_synonym device = "nat \<Rightarrow> bool"

type_synonym read_result = "bool \<times> frame option"

text \<open>
  The code behind the callbacks is outside the program too. \<open>run c f s\<close> is what calling
  the callback \<open>c\<close> on the frame \<open>f\<close> does when the driver is in state \<open>s\<close>: how the
  call ends, and the state in which it leaves the driver. A callback that holds the driver
  can call its methods and assign its attributes, as the callback of the module's own
  \<^verbatim>\<open>__main__\<close> does with \<^verbatim>\<open>driver.stop_capture()\<close>.
\<close>

type_synonym 'c callbacks = "'c \<Rightarrow> frame \<Rightarrow> 'c driver \<Rightarrow> cb_outcome \<times> 'c driver"

text \<open>\<^verbatim>\<open>CinemaDriver.__init__\<close>\<close>

definition init_driver :: "int \<Rightarrow> int \<Rightarrow> int \<Rightarrow> int \<Rightarrow> 'c driver" where
  "init_driver cid w h f =
     \<lparr>camera_id = cid, width = w, height = h, fps = f,
      exposure = - 4, white_balance = 4000, brightness = 150, contrast = 50,
      cap = None, running = False, capture_thread = None, callback = None,
      fail_count = 0, trace = [], opened = 0, threads = 0\<rparr>"

definition emit :: "event list \<Rightarrow> 'c driver \<Rightarrow> 'c driver" where
  "emit es s = s\<lparr>trace := trace s @ es\<rparr>"

subsection \<open>Methods\<close>

text \<open>\<^verbatim>\<open>initialize_camera\<close>: the exception raised, if any, and the state it leaves.\<close>

definition initialize_camera :: "device \<Rightarrow> 'c driver \<Rightarrow> py_exc option \<times> 'c driver" where
  "initialize_camera dev s =
     (let h = VideoCapture (dev (opened s));
          s1 = emit [Logging INFO Initializing, VideoCapture_new (camera_id s) (isOpened h)]
                 (s\<lparr>cap := Some h, opened := opened s + 1\<rparr>)
      in if \<not> isOpened h then (Some (Exception ''cannot open camera''), s1)
         else (None,
           (emit [Cap_set CAP_PROP_FRAME_WIDTH (width s1),
                  Cap_set CAP_PROP_FRAME_HEIGHT (height s1),
                  Cap_set CAP_PROP_FPS (fps s1),
                  Cap_set CAP_PROP_EXPOSURE (exposure s1),
                  Cap_set CAP_PROP_WHITE_BALANCE_BLUE_U (white_balance s1),
                  Cap_set CAP_PROP_BRIGHTNESS (brightness s1),
                  Cap_set CAP_PROP_CONTRAST (contrast s1),
                  Sleep 2,
                  Logging INFO (Initialized (camera_id s1) (width s1) (height s1) (fps s1))]
              s1)\<lparr>fail_count := 0\<rparr>))"

text \<open>One pass of the loop over \<^verbatim>\<open>params.items()\<close> in \<^verbatim>\<open>set_camera_parameters\<close>.\<close>

fun set_param :: "string \<times> int \<Rightarrow> 'c driver \<Rightarrow> 'c driver" where
  "set_param (key, v) s =
     (if key = ''width'' then emit [Cap_set CAP_PROP_FRAME_WIDTH v] (s\<lparr>width := v\<rparr>)
      else if key = ''height'' then emit [Cap_set CAP_PROP_FRAME_HEIGHT v] (s\<lparr>height := v\<rparr>)
      else if key = ''fps'' then emit [Cap_set CAP_PROP_FPS v] (s\<lparr>fps := v\<rparr>)
      else if key = ''exposure'' then emit [Cap_set CAP_PROP_EXPOSURE v] (s\<lparr>exposure := v\<rparr>)
      else if key = ''white_balance''
        then emit [Cap_set CAP_PROP_WHITE_BALANCE_BLUE_U v] (s\<lparr>white_balance := v\<rparr>)
      else if key = ''brightness''
        then emit [Cap_set CAP_PROP_BRIGHTNESS v] (s\<lparr>brightness := v\<rparr>)
      else if key = ''contrast'' then emit [Cap_set CAP_PROP_CONTRAST v] (s\<lparr>contrast := v\<rparr>)
      else emit [Logging WARNING (UnknownParam key)] s)"

text \<open>\<^verbatim>\<open>set_camera_parameters(**params)\<close>: the keyword arguments in their order, with
  integer values.\<close>

definition set_camera_parameters :: "(string \<times> int) list \<Rightarrow> 'c driver \<Rightarrow> 'c driver" where
  "set_camera_parameters params s =
     (if cap s = None then emit [Logging WARNING NotInitialized] s
      else emit [Logging INFO ParamsUpdated] (fold set_param params s))"

text \<open>\<^verbatim>\<open>release_camera\<close>\<close>

definition release_camera :: "'c driver \<Rightarrow> 'c driver" where
  "release_camera s =
     (if cap s \<noteq> None then emit [Cap_release, Logging INFO Released] (s\<lparr>cap := None\<rparr>)
      else s)"

text \<open>\<^verbatim>\<open>start_capture\<close>. Starting the thread is an effect; the loop that the thread
  runs is \<open>capture_loop\<close> below.\<close>

definition start_capture :: "device \<Rightarrow> 'c driver \<Rightarrow> py_exc option \<times> 'c driver" where
  "start_capture dev s =
     (case (if cap s = None then initialize_camera dev s else (None, s)) of
        (Some e, s1) \<Rightarrow> (Some e, s1)
      | (None, s1) \<Rightarrow>
          (None, emit [Thread_start (threads s1), Logging INFO ThreadStarted]
                   (s1\<lparr>running := True, capture_thread := Some (threads s1),
                       threads := threads s1 + 1\<rparr>)))"

text \<open>
  \<^verbatim>\<open>stop_capture\<close>. \<^verbatim>\<open>Thread.join\<close> raises \<^verbatim>\<open>RuntimeError\<close> when the thread that
  calls it is the thread to be joined, which is the case when the callback calls
  \<^verbatim>\<open>stop_capture\<close> from inside the loop (\<open>in_loop\<close>); \<^verbatim>\<open>self.running\<close> is cleared
  before.
\<close>

definition stop_capture :: "bool \<Rightarrow> 'c driver \<Rightarrow> py_exc option \<times> 'c driver" where
  "stop_capture in_loop s =
     (let s1 = s\<lparr>running := False\<rparr>
      in case capture_thread s1 of
           None \<Rightarrow> (None, s1)
         | Some t \<Rightarrow>
             if in_loop then (Some (RuntimeError ''cannot join current thread''), s1)
             else (None, emit [Thread_join t, Logging INFO ThreadStopped] s1))"

subsection \<open>The capture loop\<close>

text \<open>The test \<^verbatim>\<open>not ret or frame is None\<close> on the pair that \<^verbatim>\<open>cap.read()\<close> returns.\<close>

definition read_failed :: "read_result \<Rightarrow> bool" where
  "read_failed rr = (\<not> fst rr \<or> snd rr = None)"

text \<open>The branch of \<^verbatim>\<open>_capture_loop\<close> for a failed read, up to its \<^verbatim>\<open>continue\<close>.\<close>

definition on_read_failure :: "device \<Rightarrow> 'c driver \<Rightarrow> py_exc option \<times> 'c driver" where
  "on_read_failure dev s =
     (let s1 = s\<lparr>fail_count := fail_count s + 1\<rparr>;
          s2 = emit [Logging ERROR (ReadFailed (fail_count s1)), Sleep (1 / 10)] s1
      in if fail_count s2 \<ge> 5 then
           (case initialize_camera dev
                   (release_camera (emit [Logging WARNING Reinitializing] s2)) of
              (None, s3) \<Rightarrow> (None, s3)
            | (Some e, s3) \<Rightarrow>
                if is_Exception e then
                  (case str_exc e of
                     Inr m \<Rightarrow> (None, emit [Logging ERROR (ReinitFailed e)] s3)
                   | Inl e' \<Rightarrow> (Some e', s3))
                else (Some e, s3))
         else (None, s2))"

text \<open>
  \<^verbatim>\<open>if self.callback: try: self.callback(frame) except Exception as e:
  logging.error(f"...{e}")\<close>. The callback runs on the driver and leaves it in the state
  \<open>s1\<close>; an exception raised while the handler formats \<open>e\<close> leaves the loop.
\<close>

definition dispatch_callback ::
  "'c callbacks \<Rightarrow> frame \<Rightarrow> 'c driver \<Rightarrow> py_exc option \<times> 'c driver"
where
  "dispatch_callback run frm s =
     (case callback s of
        None \<Rightarrow> (None, s)
      | Some c \<Rightarrow>
          (case run c frm (emit [Callback_call frm] s) of
             (Returns, s1) \<Rightarrow> (None, s1)
           | (Raises e, s1) \<Rightarrow>
               if is_Exception e then
                 (case str_exc e of
                    Inr m \<Rightarrow> (None, emit [Logging ERROR (CallbackFailed e)] s1)
                  | Inl e' \<Rightarrow> (Some e', s1))
               else (Some e, s1)))"

text \<open>\<^verbatim>\<open>time.sleep(1 / self.fps)\<close>: the division raises for 0, the sleep for a negative
  length.\<close>

definition pace :: "'c driver \<Rightarrow> py_exc option \<times> 'c driver" where
  "pace s =
     (if fps s = 0 then (Some (ZeroDivisionError ''division by zero''), s)
      else if fps s < 0 then (Some (ValueError ''sleep length must be non-negative''), s)
      else (None, emit [Sleep (1 / of_int (fps s))] s))"

text \<open>The rest of the loop body after a successful read.\<close>

definition on_read_success ::
  "'c callbacks \<Rightarrow> frame \<Rightarrow> 'c driver \<Rightarrow> py_exc option \<times> 'c driver"
where
  "on_read_success run frm s =
     (case dispatch_callback run frm (s\<lparr>fail_count := 0\<rparr>) of
        (Some e, s1) \<Rightarrow> (Some e, s1)
      | (None, s1) \<Rightarrow> pace s1)"

text \<open>One pass through the body of \<^verbatim>\<open>while self.running\<close>, for the result \<open>rr\<close> of
  its \<^verbatim>\<open>self.cap.read()\<close>. Calling \<^verbatim>\<open>read\<close> on \<^verbatim>\<open>None\<close> raises.\<close>

definition capture_iteration ::
  "'c callbacks \<Rightarrow> device \<Rightarrow> read_result \<Rightarrow> 'c driver \<Rightarrow> py_exc option \<times> 'c driver"
where
  "capture_iteration run dev rr s =
     (case cap s of
        None \<Rightarrow> (Some (AttributeError ''NoneType object has no attribute read''), s)
      | Some h \<Rightarrow>
          (case snd rr of
             None \<Rightarrow> on_read_failure dev (emit [Cap_read] s)
           | Some frm \<Rightarrow>
               if \<not> fst rr then on_read_failure dev (emit [Cap_read] s)
               else on_read_success run frm (emit [Cap_read] s)))"

text \<open>
  \<^verbatim>\<open>_capture_loop\<close>, run for as many iterations as there are read results: the loop
  leaves when \<^verbatim>\<open>self.running\<close> is false or an exception escapes its body; the empty
  list ends the observation, not the loop.
\<close>

fun capture_loop ::
  "'c callbacks \<Rightarrow> device \<Rightarrow> read_result list \<Rightarrow> 'c driver \<Rightarrow> py_exc option \<times> 'c driver"
where
  "capture_loop run dev [] s = (None, s)"
| "capture_loop run dev (rr # rrs) s =
     (if \<not> running s then (None, s)
      else (case capture_iteration run dev rr s of
              (Some e, s1) \<Rightarrow> (Some e, s1)
            | (None, s1) \<Rightarrow> capture_loop run dev rrs s1))"

text \<open>The value of \<^verbatim>\<open>self.fail_count\<close> at the end of each iteration that the loop runs.\<close>

fun fail_count_trace ::
  "'c callbacks \<Rightarrow> device \<Rightarrow> read_result list \<Rightarrow> 'c driver \<Rightarrow> nat list"
where
  "fail_count_trace run dev [] s = []"
| "fail_count_trace run dev (rr # rrs) s =
     (if \<not> running s then []
      else (case capture_iteration run dev rr s of
              (Some e, s1) \<Rightarrow> [fail_count s1]
            | (None, s1) \<Rightarrow> fail_count s1 # fail_count_trace run dev rrs s1))"

text \<open>The calls that open, read and close the camera, as they appear in a trace.\<close>

fun is_session_call :: "event \<Rightarrow> bool" where
  "is_session_call (VideoCapture_new c b) = True"
| "is_session_call Cap_read = True"
| "is_session_call Cap_release = True"
| "is_session_call (Cap_set p v) = False"
| "is_session_call (Sleep d) = False"
| "is_session_call (Logging l m) = False"
| "is_session_call (Callback_call f) = False"
| "is_session_call (Thread_start n) = False"
| "is_session_call (Thread_join n) = False"

definition session_calls :: "event list \<Rightarrow> event list" where
  "session_calls t = filter is_session_call t"

text \<open>
  A call of the callback that stays inside the loop: it returns, or what it raises is an
  \<^verbatim>\<open>Exception\<close> that the handler can format.
\<close>

fun contained :: "cb_outcome \<Rightarrow> bool" where
  "contained Returns = True"
| "contained (Raises e) = (is_Exception e \<and> (case str_exc e of Inl e' \<Rightarrow> False | Inr m \<Rightarrow> True))"

text \<open>The callback has left alone what the loop reads of the driver, and has not opened,
  read or closed the camera.\<close>

definition keeps :: "'c driver \<Rightarrow> 'c driver \<Rightarrow> bool" where
  "keeps u u' =
     (running u' = running u \<and> cap u' = cap u \<and> fps u' = fps u
      \<and> fail_count u' = fail_count u \<and> callback u' = callback u \<and> opened u' = opened u
      \<and> session_calls (trace u') = session_calls (trace u))"

text \<open>Delivering frame \<open>f\<close> does not disturb the loop: there is no callback, or its call is
  contained and keeps the driver, in whatever state the driver is.\<close>

definition delivers :: "'c callbacks \<Rightarrow> 'c driver \<Rightarrow> frame \<Rightarrow> bool" where
  "delivers run s f =
     (case callback s of
        None \<Rightarrow> True
      | Some c \<Rightarrow> (\<forall>u. contained (fst (run c f u)) \<and> keeps u (snd (run c f u))))"

section \<open>image\_preprocessing.py\<close>

subsection \<open>The OpenCV calls and the effects of the pipeline\<close>

text \<open>
  The image operations are OpenCV's, not the program's: the pipeline is modelled over any
  library \<open>lib\<close> that maps a call, with its arguments, to the image it returns or the
  exception it raises. The arguments are those of the source, in its order:
  \<^verbatim>\<open>fastNlMeansDenoisingColored(src, None, h, hColor, templateWindowSize,
  searchWindowSize)\<close>, \<^verbatim>\<open>cvtColor(src, COLOR_BGR2GRAY)\<close>,
  \<^verbatim>\<open>createCLAHE(clipLimit, tileGridSize).apply(src)\<close>,
  \<^verbatim>\<open>GaussianBlur(src, ksize, sigmaX)\<close>, \<^verbatim>\<open>Canny(image, threshold1, threshold2)\<close>,
  \<^verbatim>\<open>morphologyEx(src, MORPH_CLOSE, getStructuringElement(MORPH_RECT, ksize),
  iterations)\<close> and \<^verbatim>\<open>addWeighted(src1, alpha, src2, beta, gamma)\<close>.
\<close>

datatype cv2_call =
    FastNlMeansDenoisingColored frame rat rat nat nat
  | CvtColor_BGR2GRAY frame
  | CLAHE_apply rat "nat \<times> nat" frame
  | GaussianBlur frame "nat \<times> nat" rat
  | Canny frame rat rat
  | MorphologyEx_CLOSE_RECT frame "nat \<times> nat" nat
  | AddWeighted frame rat frame rat rat

type_synonym cv2_lib = "cv2_call \<Rightarrow> py_exc + frame"

text \<open>The messages of \<^verbatim>\<open>logging.info\<close>, one constructor for each.\<close>

datatype pp_msg =
    DenoiseDone
  | GrayscaleDone
  | ContrastDone
  | EdgesDone
  | MorphologyDone
  | PreprocessDone
  | AdjustDone

text \<open>What the pipeline does besides returning: the OpenCV calls with their results, the
  log lines, and under \<^verbatim>\<open>debug\<close> the windows \<^verbatim>\<open>imshow(name, image)\<close> with
  \<^verbatim>\<open>waitKey(1)\<close>.\<close>

datatype pp_event =
    Cv2 cv2_call "py_exc + frame"
  | Info pp_msg
  | Imshow string frame
  | WaitKey nat

text \<open>A computation of the pipeline: its effects in order, and the exception raised or the
  value returned.\<close>

type_synonym 'a pp = "pp_event list \<times> (py_exc + 'a)"

definition pp_bind :: "'a pp \<Rightarrow> ('a \<Rightarrow> 'b pp) \<Rightarrow> 'b pp" where
  "pp_bind m k =
     (case m of
        (t, Inl e) \<Rightarrow> (t, Inl e)
      | (t, Inr v) \<Rightarrow> (case k v of (t', r) \<Rightarrow> (t @ t', r)))"

definition cv2_stage :: "cv2_lib \<Rightarrow> cv2_call \<Rightarrow> frame pp" where
  "cv2_stage lib c = ([Cv2 c (lib c)], lib c)"

definition logging_info :: "pp_msg \<Rightarrow> unit pp" where
  "logging_info m = ([Info m], Inr ())"

text \<open>\<^verbatim>\<open>if debug: cv2.imshow(name, image); cv2.waitKey(1)\<close>\<close>

definition debug_show :: "bool \<Rightarrow> string \<Rightarrow> frame \<Rightarrow> unit pp" where
  "debug_show debug name img =
     (if debug then ([Imshow name img, WaitKey 1], Inr ()) else ([], Inr ()))"

subsection \<open>The two entry points\<close>

text \<open>\<^verbatim>\<open>preprocess(image, debug=False)\<close>\<close>

definition preprocess :: "cv2_lib \<Rightarrow> frame option \<Rightarrow> bool \<Rightarrow> frame pp" where
  "preprocess lib img debug =
     (case img of
        None \<Rightarrow> ([], Inl (ValueError ''input image is empty, check the data source''))
      | Some src \<Rightarrow>
          pp_bind (cv2_stage lib (FastNlMeansDenoisingColored src 10 10 7 21)) (\<lambda>denoised.
          pp_bind (logging_info DenoiseDone) (\<lambda>_.
          pp_bind (debug_show debug ''Step 1 - Denoised'' denoised) (\<lambda>_.
          pp_bind (cv2_stage lib (CvtColor_BGR2GRAY denoised)) (\<lambda>gray.
          pp_bind (logging_info GrayscaleDone) (\<lambda>_.
          pp_bind (debug_show debug ''Step 2 - Grayscale'' gray) (\<lambda>_.
          pp_bind (cv2_stage lib (CLAHE_apply 2 (8, 8) gray)) (\<lambda>equalized.
          pp_bind (logging_info ContrastDone) (\<lambda>_.
          pp_bind (debug_show debug ''Step 3 - Equalized'' equalized) (\<lambda>_.
          pp_bind (cv2_stage lib (GaussianBlur equalized (5, 5) 0)) (\<lambda>blurred.
          pp_bind (cv2_stage lib (Canny blurred 50 150)) (\<lambda>edges.
          pp_bind (logging_info EdgesDone) (\<lambda>_.
          pp_bind (debug_show debug ''Step 4 - Edges'' edges) (\<lambda>_.
          pp_bind (cv2_stage lib (MorphologyEx_CLOSE_RECT edges (3, 3) 1)) (\<lambda>morphed.
          pp_bind (logging_info MorphologyDone) (\<lambda>_.
          pp_bind (debug_show debug ''Step 5 - Morphology'' morphed) (\<lambda>_.
          pp_bind (cv2_stage lib (AddWeighted equalized (8 / 10) morphed (2 / 10) 0))
            (\<lambda>preprocessed.
          pp_bind (logging_info PreprocessDone) (\<lambda>_.
          pp_bind (debug_show debug ''Final Preprocessed'' preprocessed) (\<lambda>_.
          ([], Inr preprocessed)))))))))))))))))))))"

text \<open>\<^verbatim>\<open>adjust_parameters(image, denoise_h=10, denoise_hColor=10, clipLimit=2.0,
  tileGridSize=(8, 8), canny_thresh1=50, canny_thresh2=150, debug=False)\<close>\<close>

definition adjust_parameters ::
  "cv2_lib \<Rightarrow> frame option \<Rightarrow> rat \<Rightarrow> rat \<Rightarrow> rat \<Rightarrow> nat \<times> nat \<Rightarrow> rat \<Rightarrow> rat \<Rightarrow> bool \<Rightarrow> frame pp"
where
  "adjust_parameters lib img denoise_h denoise_hColor clipLimit tileGridSize
       canny_thresh1 canny_thresh2 debug =
     (case img of
        None \<Rightarrow> ([], Inl (ValueError ''input image is empty, check the data source''))
      | Some src \<Rightarrow>
          pp_bind (cv2_stage lib
                     (FastNlMeansDenoisingColored src denoise_h denoise_hColor 7 21))
            (\<lambda>denoised.
          pp_bind (debug_show debug ''Adjust - Denoised'' denoised) (\<lambda>_.
          pp_bind (cv2_stage lib (CvtColor_BGR2GRAY denoised)) (\<lambda>gray.
          pp_bind (debug_show debug ''Adjust - Grayscale'' gray) (\<lambda>_.
          pp_bind (cv2_stage lib (CLAHE_apply clipLimit tileGridSize gray)) (\<lambda>equalized.
          pp_bind (debug_show debug ''Adjust - Equalized'' equalized) (\<lambda>_.
          pp_bind (cv2_stage lib (GaussianBlur equalized (5, 5) 0)) (\<lambda>blurred.
          pp_bind (cv2_stage lib (Canny blurred canny_thresh1 canny_thresh2)) (\<lambda>edges.
          pp_bind (debug_show debug ''Adjust - Edges'' edges) (\<lambda>_.
          pp_bind (cv2_stage lib (MorphologyEx_CLOSE_RECT edges (3, 3) 1)) (\<lambda>morphed.
          pp_bind (debug_show debug ''Adjust - Morphology'' morphed) (\<lambda>_.
          pp_bind (cv2_stage lib (AddWeighted equalized (8 / 10) morphed (2 / 10) 0))
            (\<lambda>preprocessed.
          pp_bind (debug_show debug ''Adjust - Final Preprocessed'' preprocessed) (\<lambda>_.
          pp_bind (logging_info AdjustDone) (\<lambda>_.
          ([], Inr preprocessed))))))))))))))))"

subsection \<open>Reading a trace of the pipeline\<close>

text \<open>The OpenCV calls of a trace with their results (the stage outputs), the images
  handed to \<^verbatim>\<open>imshow\<close>, and the thresholds of the \<^verbatim>\<open>Canny\<close> calls.\<close>

fun is_cv2 :: "pp_event \<Rightarrow> bool" where
  "is_cv2 (Cv2 c r) = True"
| "is_cv2 (Info m) = False"
| "is_cv2 (Imshow n f) = False"
| "is_cv2 (WaitKey d) = False"

definition stage_calls :: "pp_event list \<Rightarrow> pp_event list" where
  "stage_calls t = filter is_cv2 t"

fun shown :: "pp_event \<Rightarrow> frame list" where
  "shown (Imshow n f) = [f]"
| "shown (Cv2 c r) = []"
| "shown (Info m) = []"
| "shown (WaitKey d) = []"

definition shown_frames :: "pp_event list \<Rightarrow> frame list" where
  "shown_frames t = concat (map shown t)"

fun canny_args :: "pp_event \<Rightarrow> (rat \<times> rat) list" where
  "canny_args (Cv2 (Canny f t1 t2) r) = [(t1, t2)]"
| "canny_args e = []"

definition canny_thresholds :: "pp_event list \<Rightarrow> (rat \<times> rat) list" where
  "canny_thresholds t = concat (map canny_args t)"

text \<open>Two computations of the pipeline agree when they return the same result, make
  the same OpenCV calls with the same results, and show the same images.\<close>

definition agree :: "'a pp \<Rightarrow> 'a pp \<Rightarrow> bool" where
  "agree p q = (snd p = snd q \<and> stage_calls (fst p) = stage_calls (fst q)
                \<and> shown_frames (fst p) = shown_frames (fst q))"

text \<open>The results of the OpenCV calls of a trace (the stage outputs), the images that the
  contrast stage returned and the images that the closing stage returned.\<close>

fun stage_result :: "pp_event \<Rightarrow> (py_exc + frame) list" where
  "stage_result (Cv2 c r) = [r]"
| "stage_result (Info m) = []"
| "stage_result (Imshow n f) = []"
| "stage_result (WaitKey d) = []"

definition stage_outputs :: "pp_event list \<Rightarrow> (py_exc + frame) list" where
  "stage_outputs t = concat (map stage_result t)"

fun contrast_out :: "pp_event \<Rightarrow> frame list" where
  "contrast_out (Cv2 (CLAHE_apply cl tg src) (Inr f)) = [f]"
| "contrast_out e = []"

definition contrast_outputs :: "pp_event list \<Rightarrow> frame list" where
  "contrast_outputs t = concat (map contrast_out t)"

fun closing_out :: "pp_event \<Rightarrow> frame list" where
  "closing_out (Cv2 (MorphologyEx_CLOSE_RECT src k n) (Inr f)) = [f]"
| "closing_out e = []"

definition closing_outputs :: "pp_event list \<Rightarrow> frame list" where
  "closing_outputs t = concat (map closing_out t)"


subsection \<open>What the pipeline needs of OpenCV\<close>


text \<open>
  Modelled from the spec: the weighted blend of stage 6, which is OpenCV's
  \<^verbatim>\<open>cv2.addWeighted\<close> and not code of the repository. Each pixel of the result is
  \<^verbatim>\<open>src1 * alpha + src2 * beta + gamma\<close>, rounded to the nearest integer (a tie to the
  even one) and saturated to the range 0..255 of an unsigned byte; two images of
  different shapes are an error. The four definitions that follow are its rounding, its
  saturation, the value of one pixel and the blend of two images.
\<close>

text \<open>Modelled from the spec: the rounding of \<^verbatim>\<open>cv2.addWeighted\<close>, to the nearest integer
  and to the even one at a tie.\<close>

definition cv_round :: "rat \<Rightarrow> int" where
  "cv_round x =
     (let n = \<lfloor>x\<rfloor>; d = x - of_int n
      in if d < 1 / 2 then n else if 1 / 2 < d then n + 1 else if even n then n else n + 1)"

text \<open>Modelled from the spec: the saturation of \<^verbatim>\<open>cv2.addWeighted\<close> to an unsigned
  byte.\<close>

definition saturate_u8 :: "int \<Rightarrow> 8 word" where
  "saturate_u8 v = (if v < 0 then 0 else if 255 < v then 255 else word_of_int v)"

text \<open>Modelled from the spec: one pixel of the result of \<^verbatim>\<open>cv2.addWeighted\<close>.\<close>

definition blend :: "rat \<Rightarrow> rat \<Rightarrow> rat \<Rightarrow> 8 word \<Rightarrow> 8 word \<Rightarrow> 8 word" where
  "blend alpha beta gamma a b =
     saturate_u8 (cv_round (of_nat (unat a) * alpha + of_nat (unat b) * beta + gamma))"

text \<open>Modelled from the spec: \<^verbatim>\<open>cv2.addWeighted(src1, alpha, src2, beta, gamma)\<close> on two
  images.\<close>

definition addWeighted :: "frame \<Rightarrow> rat \<Rightarrow> frame \<Rightarrow> rat \<Rightarrow> rat \<Rightarrow> py_exc + frame" where
  "addWeighted src1 alpha src2 beta gamma =
     (if rows src1 = rows src2 \<and> cols src1 = cols src2 \<and> channels src1 = channels src2
         \<and> length (pixels src1) = length (pixels src2)
      then Inr (src1\<lparr>pixels := map2 (blend alpha beta gamma) (pixels src1) (pixels src2)\<rparr>)
      else Inl (Cv2Error ''the sizes of the input arguments do not match''))"

text \<open>Modelled from the spec: a library whose \<^verbatim>\<open>addWeighted\<close> is the blend above.\<close>

definition blends_as_documented :: "cv2_lib \<Rightarrow> bool" where
  "blends_as_documented lib =
     (\<forall>src1 alpha src2 beta gamma.
        lib (AddWeighted src1 alpha src2 beta gamma) = addWeighted src1 alpha src2 beta gamma)"

text \<open>A single-channel image all of whose pixels have the value \<open>v\<close>.\<close>

definition constant_image :: "nat \<Rightarrow> nat \<Rightarrow> 8 word \<Rightarrow> frame" where
  "constant_image r c v = \<lparr>rows = r, cols = c, channels = 1, pixels = replicate (r * c) v\<rparr>"

section \<open>Properties of the driver\<close>
subsection \<open>Parameter updates before the camera is opened\<close>

text \<open>
  Claim C10. When \<^verbatim>\<open>set_camera_parameters\<close> is called while \<^verbatim>\<open>self.cap\<close> is
  \<^verbatim>\<open>None\<close>, it returns after logging one warning: none of the stored fields width,
  height, fps, exposure, white\_balance, brightness and contrast changes, whatever the
  keyword arguments are, nothing is sent to a device, and \<^verbatim>\<open>self.cap\<close> stays
  \<^verbatim>\<open>None\<close>. The update is dropped, not kept for the next open.
\<close>

theorem set_camera_parameters_unopened:
  assumes "cap s = None"
  shows "width (set_camera_parameters params s) = width s
       \<and> height (set_camera_parameters params s) = height s
       \<and> fps (set_camera_parameters params s) = fps s
       \<and> exposure (set_camera_parameters params s) = exposure s
       \<and> white_balance (set_camera_parameters params s) = white_balance s
       \<and> brightness (set_camera_parameters params s) = brightness s
       \<and> contrast (set_camera_parameters params s) = contrast s
       \<and> cap (set_camera_parameters params s) = None
       \<and> trace (set_camera_parameters params s) = trace s @ [Logging WARNING NotInitialized]"
  using assms by (simp add: set_camera_parameters_def emit_def)

theorem set_camera_parameters_unopened_witness:
  "cap (init_driver 0 640 480 30 :: unit driver) = None
   \<and> width (set_camera_parameters [(''width'', 1280), (''exposure'', - 3)]
        (init_driver 0 640 480 30 :: unit driver)) = 640
   \<and> exposure (set_camera_parameters [(''width'', 1280), (''exposure'', - 3)]
        (init_driver 0 640 480 30 :: unit driver)) = - 4
   \<and> trace (set_camera_parameters [(''width'', 1280), (''exposure'', - 3)]
        (init_driver 0 640 480 30 :: unit driver)) = [Logging WARNING NotInitialized]"
proof -
  have c: "cap (init_driver 0 640 480 30 :: unit driver) = None"
    by (simp add: init_driver_def)
  show ?thesis
    using c set_camera_parameters_unopened [OF c, of "[(''width'', 1280), (''exposure'', - 3)]"]
    by (simp add: init_driver_def)
qed

subsection \<open>Stepping the loop\<close>

lemma session_calls_simps:
  "session_calls [] = []"
  "session_calls (e # t) = (if is_session_call e then e # session_calls t else session_calls t)"
  "session_calls (t @ u) = session_calls t @ session_calls u"
  by (simp_all add: session_calls_def)

lemma pair_case_fst_None:
  "fst p = None \<Longrightarrow> (case p of (None, s1) \<Rightarrow> f s1 | (Some e, s1) \<Rightarrow> g e s1) = f (snd p)"
  by (cases p) auto

lemma capture_iteration_failed:
  "cap s \<noteq> None \<Longrightarrow> read_failed rr \<Longrightarrow>
   capture_iteration run dev rr s = on_read_failure dev (emit [Cap_read] s)"
  by (auto simp: capture_iteration_def read_failed_def split: option.splits)

lemma capture_iteration_succeeded:
  "cap s \<noteq> None \<Longrightarrow>
   capture_iteration run dev (True, Some f) s = on_read_success run f (emit [Cap_read] s)"
  by (auto simp: capture_iteration_def split: option.splits)

lemma on_read_failure_below:
  "fail_count s < 4 \<Longrightarrow>
   on_read_failure dev s =
     (None, emit [Logging ERROR (ReadFailed (Suc (fail_count s))), Sleep (1 / 10)]
              (s\<lparr>fail_count := Suc (fail_count s)\<rparr>))"
  by (simp add: on_read_failure_def emit_def Let_def)

lemma on_read_failure_threshold:
  assumes "4 \<le> fail_count s" "cap s \<noteq> None"
  shows "fst (on_read_failure dev s) = None"
    and "fail_count (snd (on_read_failure dev s)) = (if dev (opened s) then 0 else Suc (fail_count s))"
    and "cap (snd (on_read_failure dev s)) = Some (VideoCapture (dev (opened s)))"
    and "opened (snd (on_read_failure dev s)) = Suc (opened s)"
    and "running (snd (on_read_failure dev s)) = running s"
    and "camera_id (snd (on_read_failure dev s)) = camera_id s"
    and "session_calls (trace (snd (on_read_failure dev s))) =
           session_calls (trace s) @ [Cap_release, VideoCapture_new (camera_id s) (dev (opened s))]"
  using assms
  by (simp_all add: on_read_failure_def initialize_camera_def release_camera_def emit_def
        Let_def session_calls_simps)

lemma on_read_failure_reopen_failed_trace:
  assumes "4 \<le> fail_count s" "cap s \<noteq> None" "\<not> dev (opened s)"
  shows "trace (snd (on_read_failure dev s)) =
           trace s @ [Logging ERROR (ReadFailed (Suc (fail_count s))), Sleep (1 / 10),
                      Logging WARNING Reinitializing, Cap_release, Logging INFO Released,
                      Logging INFO Initializing, VideoCapture_new (camera_id s) False,
                      Logging ERROR (ReinitFailed (Exception ''cannot open camera''))]"
  using assms
  by (simp add: on_read_failure_def initialize_camera_def release_camera_def emit_def Let_def)

lemma dispatch_callback_delivered:
  assumes "delivers run s f"
  shows "fst (dispatch_callback run f s) = None
       \<and> running (snd (dispatch_callback run f s)) = running s
       \<and> cap (snd (dispatch_callback run f s)) = cap s
       \<and> fps (snd (dispatch_callback run f s)) = fps s
       \<and> fail_count (snd (dispatch_callback run f s)) = fail_count s
       \<and> callback (snd (dispatch_callback run f s)) = callback s
       \<and> opened (snd (dispatch_callback run f s)) = opened s
       \<and> session_calls (trace (snd (dispatch_callback run f s))) = session_calls (trace s)"
proof (cases "callback s")
  case None
  then show ?thesis by (simp add: dispatch_callback_def)
next
  case (Some c)
  let ?u = "emit [Callback_call f] s"
  obtain out u' where r: "run c f ?u = (out, u')" by (cases "run c f ?u")
  from assms Some have "contained (fst (run c f ?u)) \<and> keeps ?u (snd (run c f ?u))"
    by (simp add: delivers_def)
  with r have c: "contained out" and k: "keeps ?u u'" by simp_all
  from k have k': "running u' = running s" "cap u' = cap s" "fps u' = fps s"
    "fail_count u' = fail_count s" "callback u' = callback s" "opened u' = opened s"
    "session_calls (trace u') = session_calls (trace s)"
    by (simp_all add: keeps_def emit_def session_calls_simps)
  show ?thesis
  proof (cases out)
    case Returns
    with Some r k' show ?thesis by (simp add: dispatch_callback_def)
  next
    case (Raises e)
    with c obtain m where "is_Exception e" "str_exc e = Inr m"
      by (cases "str_exc e") simp_all
    with Some r k' Raises show ?thesis
      by (simp add: dispatch_callback_def emit_def session_calls_simps)
  qed
qed

lemma on_read_success_delivered:
  assumes "delivers run s f" "0 < fps s"
  shows "fst (on_read_success run f s) = None"
    and "fail_count (snd (on_read_success run f s)) = 0"
    and "cap (snd (on_read_success run f s)) = cap s"
    and "opened (snd (on_read_success run f s)) = opened s"
    and "running (snd (on_read_success run f s)) = running s"
    and "fps (snd (on_read_success run f s)) = fps s"
    and "callback (snd (on_read_success run f s)) = callback s"
    and "session_calls (trace (snd (on_read_success run f s))) = session_calls (trace s)"
proof -
  let ?s0 = "s\<lparr>fail_count := 0\<rparr>"
  have d: "delivers run ?s0 f" using assms(1) by (simp add: delivers_def)
  obtain x s1 where r: "dispatch_callback run f ?s0 = (x, s1)"
    by (cases "dispatch_callback run f ?s0")
  from dispatch_callback_delivered [OF d] r
  have k: "x = None" "running s1 = running s" "cap s1 = cap s" "fps s1 = fps s"
    "fail_count s1 = 0" "callback s1 = callback s" "opened s1 = opened s"
    "session_calls (trace s1) = session_calls (trace s)"
    by simp_all
  have o: "on_read_success run f s = pace s1"
    using r k(1) by (simp add: on_read_success_def)
  show "fst (on_read_success run f s) = None"
    and "fail_count (snd (on_read_success run f s)) = 0"
    and "cap (snd (on_read_success run f s)) = cap s"
    and "opened (snd (on_read_success run f s)) = opened s"
    and "running (snd (on_read_success run f s)) = running s"
    and "fps (snd (on_read_success run f s)) = fps s"
    and "callback (snd (on_read_success run f s)) = callback s"
    and "session_calls (trace (snd (on_read_success run f s))) = session_calls (trace s)"
    unfolding o using k assms(2)
    by (simp_all add: pace_def emit_def session_calls_simps)
qed

lemma loop_failed_below:
  "running s \<Longrightarrow> cap s \<noteq> None \<Longrightarrow> read_failed rr \<Longrightarrow> fail_count s < 4 \<Longrightarrow>
   capture_loop run dev (rr # rrs) s =
     capture_loop run dev rrs
       (emit [Cap_read, Logging ERROR (ReadFailed (Suc (fail_count s))), Sleep (1 / 10)]
          (s\<lparr>fail_count := Suc (fail_count s)\<rparr>))"
  by (simp add: capture_iteration_failed on_read_failure_below emit_def)

lemma loop_failed_threshold:
  "running s \<Longrightarrow> cap s \<noteq> None \<Longrightarrow> read_failed rr \<Longrightarrow> 4 \<le> fail_count s \<Longrightarrow>
   capture_loop run dev (rr # rrs) s =
     capture_loop run dev rrs (snd (on_read_failure dev (emit [Cap_read] s)))"
  by (simp add: capture_iteration_failed on_read_failure_threshold(1) emit_def pair_case_fst_None)

lemma loop_succeeded:
  "running s \<Longrightarrow> cap s \<noteq> None \<Longrightarrow> delivers run s f \<Longrightarrow> 0 < fps s \<Longrightarrow>
   capture_loop run dev ((True, Some f) # rrs) s =
     capture_loop run dev rrs (snd (on_read_success run f (emit [Cap_read] s)))"
  by (simp add: capture_iteration_succeeded on_read_success_delivered(1) emit_def
        delivers_def pair_case_fst_None)

lemma trace_failed_below:
  "running s \<Longrightarrow> cap s \<noteq> None \<Longrightarrow> read_failed rr \<Longrightarrow> fail_count s < 4 \<Longrightarrow>
   fail_count_trace run dev (rr # rrs) s =
     Suc (fail_count s) # fail_count_trace run dev rrs
       (emit [Cap_read, Logging ERROR (ReadFailed (Suc (fail_count s))), Sleep (1 / 10)]
          (s\<lparr>fail_count := Suc (fail_count s)\<rparr>))"
  by (simp add: capture_iteration_failed on_read_failure_below emit_def)

lemma trace_succeeded:
  "running s \<Longrightarrow> cap s \<noteq> None \<Longrightarrow> delivers run s f \<Longrightarrow> 0 < fps s \<Longrightarrow>
   fail_count_trace run dev ((True, Some f) # rrs) s =
     0 # fail_count_trace run dev rrs (snd (on_read_success run f (emit [Cap_read] s)))"
  by (simp add: capture_iteration_succeeded on_read_success_delivered(1,2) emit_def
        delivers_def pair_case_fst_None)

lemma len4: "length rs = 4 \<Longrightarrow> \<exists>a b c d. rs = [a, b, c, d]"
  by (auto simp: length_Suc_conv eval_nat_numeral)

lemma len5: "length rs = 5 \<Longrightarrow> \<exists>a b c d e. rs = [a, b, c, d, e]"
  by (auto simp: length_Suc_conv eval_nat_numeral)

subsection \<open>Reinitialization after five failed reads\<close>

text \<open>
  Claim C1. Let the loop run with \<^verbatim>\<open>fail_count\<close> 0 on an opened camera and let five
  reads in a row fail. The loop is alive after them. During the first four failing
  iterations the camera is only read. In the fifth iteration, after the fifth read, the
  loop releases the camera and constructs a new \<^verbatim>\<open>VideoCapture\<close> exactly once, in this
  order, whether the new object opens or not: the reinitialization is over before a sixth
  read can start.
\<close>

theorem reinitialize_on_fifth_failure:
  assumes "fail_count s = 0" and "running s" and "cap s = Some h"
    and "length rs = 5" and "list_all read_failed rs"
  shows "fst (capture_loop run dev rs s) = None
       \<and> session_calls (trace (snd (capture_loop run dev (take 4 rs) s)))
           = session_calls (trace s) @ replicate 4 Cap_read
       \<and> session_calls (trace (snd (capture_loop run dev rs s)))
           = session_calls (trace s) @ replicate 5 Cap_read
               @ [Cap_release, VideoCapture_new (camera_id s) (dev (opened s))]"
proof -
  from assms(4) obtain a b c d e where rs: "rs = [a, b, c, d, e]"
    using len5 by blast
  with assms(5) have f: "read_failed a" "read_failed b" "read_failed c" "read_failed d" "read_failed e"
    by simp_all
  show ?thesis
    using assms(1-3) f unfolding rs
    by (simp add: loop_failed_below loop_failed_threshold on_read_failure_threshold emit_def
          session_calls_simps eval_nat_numeral del: capture_loop.simps(2))
qed

theorem reinitialize_on_fifth_failure_witness:
  "fail_count (snd (start_capture (\<lambda>n. True) (init_driver 0 640 480 30 :: unit driver))) = 0
   \<and> running (snd (start_capture (\<lambda>n. True) (init_driver 0 640 480 30 :: unit driver)))
   \<and> list_all read_failed (replicate 5 (False, None))
   \<and> session_calls (trace (snd (capture_loop (\<lambda>c f u. (Returns, u)) (\<lambda>n. True) (replicate 5 (False, None))
      (snd (start_capture (\<lambda>n. True) (init_driver 0 640 480 30 :: unit driver))))))
   = [VideoCapture_new 0 True, Cap_read, Cap_read, Cap_read, Cap_read, Cap_read,
      Cap_release, VideoCapture_new 0 True]"
proof -
  let ?s = "snd (start_capture (\<lambda>n. True) (init_driver 0 640 480 30 :: unit driver))"
  have 1: "fail_count ?s = 0" and 2: "running ?s" and 3: "cap ?s = Some (VideoCapture True)"
    by (simp_all add: start_capture_def initialize_camera_def init_driver_def emit_def Let_def)
  have 4: "length (replicate 5 (False, None :: frame option)) = 5" by simp
  have 5: "list_all read_failed (replicate 5 (False, None))"
    by (simp add: read_failed_def eval_nat_numeral)
  have 6: "session_calls (trace ?s) = [VideoCapture_new 0 True]" "camera_id ?s = 0"
    by (simp_all add: start_capture_def initialize_camera_def init_driver_def emit_def Let_def
          session_calls_simps)
  show ?thesis
    using reinitialize_on_fifth_failure
            [where run = "\<lambda>c f u. (Returns, u)" and dev = "\<lambda>n. True", OF 1 2 3 4 5] 1 2 5 6
    by (simp add: eval_nat_numeral)
qed

subsection \<open>A reinitialization that fails\<close>

text \<open>
  Claim C2 says that after a failed reinitialization the next attempt comes only after
  five further failed reads. The loop does otherwise: \<^verbatim>\<open>fail_count\<close> is reset only at
  the end of a successful \<^verbatim>\<open>initialize_camera\<close>, so after a failed one it stays at 5
  and the test \<^verbatim>\<open>fail_count >= 5\<close> holds again at the very next failed read. With a
  camera that opens once and never again, six failed reads give two attempts, after the
  fifth and after the sixth read.
\<close>

theorem failed_reinit_retried_at_sixth_failure:
  "session_calls (trace (snd (capture_loop (\<lambda>c f u. (Returns, u)) (\<lambda>n. n = 0) (replicate 6 (False, None))
      (snd (start_capture (\<lambda>n. n = 0) (init_driver 0 640 480 30 :: unit driver))))))
   = [VideoCapture_new 0 True, Cap_read, Cap_read, Cap_read, Cap_read, Cap_read,
      Cap_release, VideoCapture_new 0 False,
      Cap_read, Cap_release, VideoCapture_new 0 False]"
  by (simp add: start_capture_def initialize_camera_def init_driver_def emit_def Let_def
        capture_iteration_def on_read_failure_def release_camera_def
        session_calls_simps eval_nat_numeral)

lemma failed_reinit_loop:
  assumes "running s" and "cap s \<noteq> None" and "4 \<le> fail_count s"
    and "list_all read_failed rs" and "\<And>n. opened s \<le> n \<Longrightarrow> \<not> dev n"
  shows "fst (capture_loop run dev rs s) = None
       \<and> running (snd (capture_loop run dev rs s))
       \<and> fail_count (snd (capture_loop run dev rs s)) = fail_count s + length rs
       \<and> opened (snd (capture_loop run dev rs s)) = opened s + length rs
       \<and> session_calls (trace (snd (capture_loop run dev rs s)))
           = session_calls (trace s)
             @ concat (replicate (length rs)
                 [Cap_read, Cap_release, VideoCapture_new (camera_id s) False])"
  using assms
proof (induction rs arbitrary: s)
  case Nil
  then show ?case by simp
next
  case (Cons r rs)
  let ?s0 = "emit [Cap_read] s"
  let ?s1 = "snd (on_read_failure dev ?s0)"
  have pre: "4 \<le> fail_count ?s0" "cap ?s0 \<noteq> None" "\<not> dev (opened ?s0)"
    using Cons.prems by (simp_all add: emit_def)
  have step: "capture_loop run dev (r # rs) s = capture_loop run dev rs ?s1"
    using Cons.prems by (simp add: loop_failed_threshold del: capture_loop.simps)
  have s1: "running ?s1" "cap ?s1 \<noteq> None" "fail_count ?s1 = Suc (fail_count s)"
    "opened ?s1 = Suc (opened s)" "camera_id ?s1 = camera_id s"
    "session_calls (trace ?s1)
       = session_calls (trace s) @ [Cap_read, Cap_release, VideoCapture_new (camera_id s) False]"
    using Cons.prems(1) pre on_read_failure_threshold [OF pre(1,2), of dev]
    by (simp_all add: emit_def session_calls_simps)
  have ih: "fst (capture_loop run dev rs ?s1) = None
       \<and> running (snd (capture_loop run dev rs ?s1))
       \<and> fail_count (snd (capture_loop run dev rs ?s1)) = fail_count ?s1 + length rs
       \<and> opened (snd (capture_loop run dev rs ?s1)) = opened ?s1 + length rs
       \<and> session_calls (trace (snd (capture_loop run dev rs ?s1)))
           = session_calls (trace ?s1)
             @ concat (replicate (length rs)
                 [Cap_read, Cap_release, VideoCapture_new (camera_id ?s1) False])"
  proof (rule Cons.IH)
    show "running ?s1" by (rule s1)
    show "cap ?s1 \<noteq> None" by (rule s1)
    show "4 \<le> fail_count ?s1" using s1(3) Cons.prems(3) by simp
    show "list_all read_failed rs" using Cons.prems(4) by simp
    show "\<not> dev n" if "opened ?s1 \<le> n" for n
      using that s1(4) Cons.prems(5) [of n] by simp
  qed
  show ?case
    unfolding step using ih s1 by simp
qed

text \<open>
  Claim C2, amended. When the reinitialization inside the loop fails, the loop logs the
  error and goes on without raising; \<^verbatim>\<open>fail_count\<close> is not reset, and as long as reads
  keep failing and the camera does not open, every failed read releases the camera and
  tries to open it again, once per failed read.
\<close>

theorem failed_reinit_retried_on_every_failed_read:
  assumes "running s" and "cap s = Some h" and "4 \<le> fail_count s"
    and "read_failed r" and "list_all read_failed rs"
    and "\<And>n. opened s \<le> n \<Longrightarrow> \<not> dev n"
  shows "fst (capture_iteration run dev r s) = None
       \<and> trace (snd (capture_iteration run dev r s))
           = trace s @ [Cap_read, Logging ERROR (ReadFailed (Suc (fail_count s))),
                        Sleep (1 / 10), Logging WARNING Reinitializing, Cap_release,
                        Logging INFO Released, Logging INFO Initializing,
                        VideoCapture_new (camera_id s) False,
                        Logging ERROR (ReinitFailed (Exception ''cannot open camera''))]
       \<and> fst (capture_loop run dev (r # rs) s) = None
       \<and> running (snd (capture_loop run dev (r # rs) s))
       \<and> fail_count (snd (capture_loop run dev (r # rs) s)) = fail_count s + length (r # rs)
       \<and> session_calls (trace (snd (capture_loop run dev (r # rs) s)))
           = session_calls (trace s)
             @ concat (replicate (length (r # rs))
                 [Cap_read, Cap_release, VideoCapture_new (camera_id s) False])"
proof -
  have c: "cap s \<noteq> None" using assms(2) by simp
  have pre: "4 \<le> fail_count (emit [Cap_read] s)" "cap (emit [Cap_read] s) \<noteq> None"
    "\<not> dev (opened (emit [Cap_read] s))"
    using assms(3) c assms(6) [of "opened s"] by (simp_all add: emit_def)
  have it: "capture_iteration run dev r s = on_read_failure dev (emit [Cap_read] s)"
    using c assms(4) by (rule capture_iteration_failed)
  have a: "fst (capture_iteration run dev r s) = None"
    unfolding it using pre by (simp add: on_read_failure_threshold)
  have b: "trace (snd (capture_iteration run dev r s))
           = trace s @ [Cap_read, Logging ERROR (ReadFailed (Suc (fail_count s))),
                        Sleep (1 / 10), Logging WARNING Reinitializing, Cap_release,
                        Logging INFO Released, Logging INFO Initializing,
                        VideoCapture_new (camera_id s) False,
                        Logging ERROR (ReinitFailed (Exception ''cannot open camera''))]"
    unfolding it
    using on_read_failure_reopen_failed_trace [where s = "emit [Cap_read] s" and dev = dev, OF pre]
    by (simp add: emit_def)
  have l: "list_all read_failed (r # rs)" using assms(4,5) by simp
  show ?thesis
    using a b failed_reinit_loop [OF assms(1) c assms(3) l assms(6)] by simp
qed

theorem failed_reinit_retried_on_every_failed_read_witness:
  "running (snd (start_capture (\<lambda>n. n = 0) (init_driver 0 640 480 30 :: unit driver))\<lparr>fail_count := 4\<rparr>)
   \<and> read_failed (False, None)
   \<and> fail_count (snd (capture_loop (\<lambda>c f u. (Returns, u)) (\<lambda>n. n = 0) [(False, None), (False, None), (False, None)]
        (snd (start_capture (\<lambda>n. n = 0) (init_driver 0 640 480 30 :: unit driver))\<lparr>fail_count := 4\<rparr>))) = 7
   \<and> session_calls (trace (snd (capture_loop (\<lambda>c f u. (Returns, u)) (\<lambda>n. n = 0)
        [(False, None), (False, None), (False, None)]
        (snd (start_capture (\<lambda>n. n = 0) (init_driver 0 640 480 30 :: unit driver))\<lparr>fail_count := 4\<rparr>))))
       = [VideoCapture_new 0 True,
          Cap_read, Cap_release, VideoCapture_new 0 False,
          Cap_read, Cap_release, VideoCapture_new 0 False,
          Cap_read, Cap_release, VideoCapture_new 0 False]"
proof -
  let ?s = "snd (start_capture (\<lambda>n. n = 0) (init_driver 0 640 480 30 :: unit driver))\<lparr>fail_count := 4\<rparr>"
  have 1: "running ?s" and 2: "cap ?s = Some (VideoCapture True)" and 3: "4 \<le> fail_count ?s"
    by (simp_all add: start_capture_def initialize_camera_def init_driver_def emit_def Let_def)
  have 4: "read_failed (False, None)" by (simp add: read_failed_def)
  have 5: "list_all read_failed [(False, None), (False, None)]" by (simp add: read_failed_def)
  have 6: "\<not> (n = 0)" if "opened ?s \<le> n" for n :: nat
    using that
    by (simp add: start_capture_def initialize_camera_def init_driver_def emit_def Let_def)
  have 7: "session_calls (trace ?s) = [VideoCapture_new 0 True]" "camera_id ?s = 0"
    "fail_count ?s = 4"
    by (simp_all add: start_capture_def initialize_camera_def init_driver_def emit_def Let_def
          session_calls_simps)
  show ?thesis
    using failed_reinit_retried_on_every_failed_read
            [where s = ?s and h = "VideoCapture True" and r = "(False, None)"
               and rs = "[(False, None), (False, None)]" and dev = "\<lambda>n. n = 0"
               and run = "\<lambda>c f u. (Returns, u)", OF 1 2 3 4 5 6] 1 4 7
    by (simp add: eval_nat_numeral)
qed

subsection \<open>The failure counter\<close>

lemma failed_iteration_counter:
  assumes "cap t \<noteq> None" and "read_failed r"
  shows "take 2 (drop (length (trace t)) (trace (snd (capture_iteration run dev r t))))
           = [Cap_read, Logging ERROR (ReadFailed (fail_count t + 1))]"
    and "fail_count (snd (capture_iteration run dev r t))
           = (if 5 \<le> fail_count t + 1 \<and> dev (opened t) then 0 else fail_count t + 1)"
  using assms
  by (simp_all add: capture_iteration_failed on_read_failure_def initialize_camera_def
        release_camera_def emit_def Let_def)

lemma dispatch_callback_fail_count:
  "fail_count (snd (dispatch_callback run f s))
     = (case callback s of
          None \<Rightarrow> fail_count s
        | Some c \<Rightarrow> fail_count (snd (run c f (emit [Callback_call f] s))))"
  by (simp add: dispatch_callback_def emit_def
        split: option.splits prod.splits cb_outcome.splits sum.splits)

lemma pace_fail_count: "fail_count (snd (pace s)) = fail_count s"
  by (simp add: pace_def emit_def)

lemma on_read_success_fail_count:
  "fail_count (snd (on_read_success run f s))
     = fail_count (snd (dispatch_callback run f (s\<lparr>fail_count := 0\<rparr>)))"
  by (simp add: on_read_success_def pace_fail_count split: prod.splits option.splits)

lemma successful_iteration_counter:
  assumes "cap t \<noteq> None"
  shows "fail_count (snd (capture_iteration run dev (True, Some f) t))
           = (case callback t of
                None \<Rightarrow> 0
              | Some c \<Rightarrow>
                  fail_count (snd (run c f
                    (emit [Callback_call f] ((emit [Cap_read] t)\<lparr>fail_count := 0\<rparr>)))))"
    and "delivers run t f \<Longrightarrow> fail_count (snd (capture_iteration run dev (True, Some f) t)) = 0"
proof -
  show "fail_count (snd (capture_iteration run dev (True, Some f) t))
           = (case callback t of
                None \<Rightarrow> 0
              | Some c \<Rightarrow>
                  fail_count (snd (run c f
                    (emit [Callback_call f] ((emit [Cap_read] t)\<lparr>fail_count := 0\<rparr>)))))"
    using assms
    by (simp add: capture_iteration_succeeded on_read_success_fail_count
          dispatch_callback_fail_count emit_def split: option.splits)
  assume d: "delivers run t f"
  let ?u = "(emit [Cap_read] t)\<lparr>fail_count := 0\<rparr>"
  have "delivers run ?u f" using d by (simp add: delivers_def emit_def)
  from dispatch_callback_delivered [OF this]
  have "fail_count (snd (dispatch_callback run f ?u)) = 0" by simp
  then show "fail_count (snd (capture_iteration run dev (True, Some f) t)) = 0"
    using assms by (simp add: capture_iteration_succeeded on_read_success_fail_count)
qed

text \<open>
  Claim C3. In every iteration with a failed read the loop adds 1 to \<^verbatim>\<open>fail_count\<close>
  (the value it logs right after the read is the old value plus 1), and that value stays
  to the end of the iteration unless the threshold 5 is reached and the camera reopens,
  which resets it as every successful \<^verbatim>\<open>initialize_camera\<close> does. In every iteration
  with a successful read the loop sets \<^verbatim>\<open>fail_count\<close> to 0 before it calls the
  callback, so that the value at the end of the iteration is 0 without a callback, and
  otherwise the value in which the callback leaves it: 0 when the callback leaves the
  driver alone. Starting from 0 with a positive \<^verbatim>\<open>fps\<close> and a callback that lets the
  loop live, four failed reads, a success, four failed reads and a success give the
  values 1, 2, 3, 4, 0, 1, 2, 3, 4, 0 at the ends of the ten iterations, and the camera is
  only read: never released, never reopened.
\<close>

theorem fail_count_incremented_and_reset:
  assumes "cap t = Some h'"
    and "running s" and "cap s = Some h" and "fail_count s = 0" and "0 < fps s"
    and "delivers run s f1" and "delivers run s f2"
    and "length rs1 = 4" and "list_all read_failed rs1"
    and "length rs2 = 4" and "list_all read_failed rs2"
  shows "(read_failed r \<longrightarrow>
            take 2 (drop (length (trace t)) (trace (snd (capture_iteration run dev r t))))
              = [Cap_read, Logging ERROR (ReadFailed (fail_count t + 1))]
          \<and> fail_count (snd (capture_iteration run dev r t))
              = (if 5 \<le> fail_count t + 1 \<and> dev (opened t) then 0 else fail_count t + 1))
       \<and> fail_count (snd (capture_iteration run dev (True, Some f) t))
           = (case callback t of
                None \<Rightarrow> 0
              | Some c \<Rightarrow>
                  fail_count (snd (run c f
                    (emit [Callback_call f] ((emit [Cap_read] t)\<lparr>fail_count := 0\<rparr>)))))
       \<and> (delivers run t f \<longrightarrow>
            fail_count (snd (capture_iteration run dev (True, Some f) t)) = 0)
       \<and> fail_count_trace run dev (rs1 @ [(True, Some f1)] @ rs2 @ [(True, Some f2)]) s
           = [1, 2, 3, 4, 0, 1, 2, 3, 4, 0]
       \<and> fst (capture_loop run dev (rs1 @ [(True, Some f1)] @ rs2 @ [(True, Some f2)]) s) = None
       \<and> session_calls
             (trace (snd (capture_loop run dev (rs1 @ [(True, Some f1)] @ rs2 @ [(True, Some f2)]) s)))
           = session_calls (trace s) @ replicate 10 Cap_read
       \<and> opened (snd (capture_loop run dev (rs1 @ [(True, Some f1)] @ rs2 @ [(True, Some f2)]) s))
           = opened s"
proof -
  have t: "cap t \<noteq> None" using assms(1) by simp
  from assms(8) obtain a b c d where rs1: "rs1 = [a, b, c, d]"
    using len4 by blast
  from assms(10) obtain a' b' c' d' where rs2: "rs2 = [a', b', c', d']"
    using len4 by blast
  have f: "read_failed a" "read_failed b" "read_failed c" "read_failed d"
    "read_failed a'" "read_failed b'" "read_failed c'" "read_failed d'"
    using assms(9,11) unfolding rs1 rs2 by simp_all
  have c: "cap s \<noteq> None" using assms(3) by simp
  note steps = loop_failed_below loop_succeeded trace_failed_below trace_succeeded
    on_read_success_delivered
  have tr: "fail_count_trace run dev (rs1 @ [(True, Some f1)] @ rs2 @ [(True, Some f2)]) s
           = [1, 2, 3, 4, 0, 1, 2, 3, 4, 0]"
    using assms(2,4,5,6,7) c f unfolding rs1 rs2
    by (simp add: steps emit_def delivers_def
          del: capture_loop.simps(2) fail_count_trace.simps(2))
  have lp: "fst (capture_loop run dev (rs1 @ [(True, Some f1)] @ rs2 @ [(True, Some f2)]) s) = None
       \<and> session_calls
             (trace (snd (capture_loop run dev (rs1 @ [(True, Some f1)] @ rs2 @ [(True, Some f2)]) s)))
           = session_calls (trace s) @ replicate 10 Cap_read
       \<and> opened (snd (capture_loop run dev (rs1 @ [(True, Some f1)] @ rs2 @ [(True, Some f2)]) s))
           = opened s"
    using assms(2,4,5,6,7) c f unfolding rs1 rs2
    by (simp add: steps emit_def delivers_def session_calls_simps eval_nat_numeral
          del: capture_loop.simps(2) fail_count_trace.simps(2))
  show ?thesis
    using failed_iteration_counter [OF t, where r = r and dev = dev and run = run]
      successful_iteration_counter [OF t, where dev = dev and f = f and run = run] tr lp
    by simp
qed

theorem fail_count_incremented_and_reset_witness:
  "fail_count (snd (start_capture (\<lambda>n. True)
        ((init_driver 0 640 480 30 :: unit driver)\<lparr>callback := Some ()\<rparr>))) = 0
   \<and> 0 < fps (snd (start_capture (\<lambda>n. True)
        ((init_driver 0 640 480 30 :: unit driver)\<lparr>callback := Some ()\<rparr>)))
   \<and> fail_count_trace (\<lambda>c f u. (Returns, emit [Logging INFO ParamsUpdated] u)) (\<lambda>n. True)
        ([(False, None), (False, None), (False, None), (False, None)]
         @ [(True, Some \<lparr>rows = 1, cols = 1, channels = 3, pixels = [0, 0, 0]\<rparr>)]
         @ [(False, None), (False, None), (False, None), (False, None)]
         @ [(True, Some \<lparr>rows = 1, cols = 1, channels = 3, pixels = [0, 0, 0]\<rparr>)])
        (snd (start_capture (\<lambda>n. True)
           ((init_driver 0 640 480 30 :: unit driver)\<lparr>callback := Some ()\<rparr>)))
       = [1, 2, 3, 4, 0, 1, 2, 3, 4, 0]
   \<and> opened (snd (capture_loop (\<lambda>c f u. (Returns, emit [Logging INFO ParamsUpdated] u))
        (\<lambda>n. True)
        ([(False, None), (False, None), (False, None), (False, None)]
         @ [(True, Some \<lparr>rows = 1, cols = 1, channels = 3, pixels = [0, 0, 0]\<rparr>)]
         @ [(False, None), (False, None), (False, None), (False, None)]
         @ [(True, Some \<lparr>rows = 1, cols = 1, channels = 3, pixels = [0, 0, 0]\<rparr>)])
        (snd (start_capture (\<lambda>n. True)
           ((init_driver 0 640 480 30 :: unit driver)\<lparr>callback := Some ()\<rparr>))))) = 1"
proof -
  let ?s = "snd (start_capture (\<lambda>n. True)
              ((init_driver 0 640 480 30 :: unit driver)\<lparr>callback := Some ()\<rparr>))"
  let ?run = "\<lambda>(c :: unit) (f :: frame) (u :: unit driver).
                (Returns, emit [Logging INFO ParamsUpdated] u)"
  let ?f = "\<lparr>rows = 1, cols = 1, channels = 3, pixels = [0, 0, 0 :: 8 word]\<rparr>"
  let ?rs = "[(False, None), (False, None), (False, None), (False, None :: frame option)]"
  have 1: "cap ?s = Some (VideoCapture True)" and 2: "running ?s" and 3: "fail_count ?s = 0"
    and 4: "0 < fps ?s" and 6: "opened ?s = 1"
    by (simp_all add: start_capture_def initialize_camera_def init_driver_def emit_def Let_def)
  have 5: "delivers ?run ?s ?f"
    by (simp add: delivers_def keeps_def emit_def session_calls_simps
          start_capture_def initialize_camera_def init_driver_def Let_def)
  have 7: "length ?rs = 4" by simp
  have 8: "list_all read_failed ?rs" by (simp add: read_failed_def)
  show ?thesis
    using fail_count_incremented_and_reset
            [where run = ?run and r = "(False, None)"
               and dev = "\<lambda>n. True" and f = ?f, OF 1 2 1 3 4 5 5 7 8 7 8]
      3 4 6
    by simp
qed

subsection \<open>Starting the loop\<close>

text \<open>
  Claim C7 says that \<^verbatim>\<open>start_capture\<close> does nothing when the loop is already
  running. The method has no test of \<^verbatim>\<open>self.running\<close>: called a second time it starts
  a second thread and stores the new thread in \<^verbatim>\<open>capture_thread\<close>.
\<close>

theorem second_start_launches_second_thread:
  "running (snd (start_capture (\<lambda>n. True) (init_driver 0 640 480 30 :: unit driver)))
   \<and> threads (snd (start_capture (\<lambda>n. True) (init_driver 0 640 480 30 :: unit driver))) = 1
   \<and> threads (snd (start_capture (\<lambda>n. True)
        (snd (start_capture (\<lambda>n. True) (init_driver 0 640 480 30 :: unit driver))))) = 2
   \<and> capture_thread (snd (start_capture (\<lambda>n. True)
        (snd (start_capture (\<lambda>n. True) (init_driver 0 640 480 30 :: unit driver))))) = Some 1
   \<and> drop 11 (trace (snd (start_capture (\<lambda>n. True)
        (snd (start_capture (\<lambda>n. True) (init_driver 0 640 480 30 :: unit driver))))))
       = [Thread_start 0, Logging INFO ThreadStarted, Thread_start 1, Logging INFO ThreadStarted]"
  by (simp add: start_capture_def initialize_camera_def init_driver_def emit_def Let_def)

text \<open>
  Claim C7, amended. \<^verbatim>\<open>start_capture\<close> starts a new loop thread on every call, also
  when the loop is already running, sets \<^verbatim>\<open>running\<close> and returns without running the
  loop itself. It calls \<^verbatim>\<open>initialize_camera\<close> first exactly when \<^verbatim>\<open>self.cap\<close> is
  \<^verbatim>\<open>None\<close>; if that raises, the exception reaches the caller and no thread is started.
\<close>

theorem start_capture_launches_a_thread:
  "(cap s \<noteq> None \<longrightarrow>
      fst (start_capture dev s) = None
    \<and> running (snd (start_capture dev s))
    \<and> threads (snd (start_capture dev s)) = threads s + 1
    \<and> capture_thread (snd (start_capture dev s)) = Some (threads s)
    \<and> cap (snd (start_capture dev s)) = cap s
    \<and> opened (snd (start_capture dev s)) = opened s
    \<and> trace (snd (start_capture dev s))
        = trace s @ [Thread_start (threads s), Logging INFO ThreadStarted])
   \<and> (cap s = None \<and> dev (opened s) \<longrightarrow>
      fst (start_capture dev s) = None
    \<and> running (snd (start_capture dev s))
    \<and> threads (snd (start_capture dev s)) = threads s + 1
    \<and> cap (snd (start_capture dev s)) = Some (VideoCapture True)
    \<and> opened (snd (start_capture dev s)) = opened s + 1
    \<and> session_calls (trace (snd (start_capture dev s)))
        = session_calls (trace s) @ [VideoCapture_new (camera_id s) True])
   \<and> (cap s = None \<and> \<not> dev (opened s) \<longrightarrow>
      fst (start_capture dev s) = Some (Exception ''cannot open camera'')
    \<and> running (snd (start_capture dev s)) = running s
    \<and> threads (snd (start_capture dev s)) = threads s)"
  by (simp add: start_capture_def initialize_camera_def emit_def Let_def session_calls_simps)

theorem start_capture_launches_a_thread_witness:
  "cap (snd (start_capture (\<lambda>n. True) (init_driver 0 640 480 30 :: unit driver))) \<noteq> None
   \<and> running (snd (start_capture (\<lambda>n. True) (init_driver 0 640 480 30 :: unit driver)))
   \<and> threads (snd (start_capture (\<lambda>n. True)
        (snd (start_capture (\<lambda>n. True) (init_driver 0 640 480 30 :: unit driver)))))
       = threads (snd (start_capture (\<lambda>n. True) (init_driver 0 640 480 30 :: unit driver))) + 1
   \<and> cap (init_driver 0 640 480 30 :: unit driver) = None
   \<and> opened (snd (start_capture (\<lambda>n. True) (init_driver 0 640 480 30 :: unit driver))) = 1
   \<and> fst (start_capture (\<lambda>n. False) (init_driver 0 640 480 30 :: unit driver))
       = Some (Exception ''cannot open camera'')
   \<and> threads (snd (start_capture (\<lambda>n. False) (init_driver 0 640 480 30 :: unit driver))) = 0"
proof -
  let ?i = "init_driver 0 640 480 30 :: unit driver"
  let ?s = "snd (start_capture (\<lambda>n. True) ?i)"
  have 0: "cap ?i = None" "opened ?i = 0" "threads ?i = 0"
    by (simp_all add: init_driver_def)
  have 1: "cap ?s \<noteq> None" and 2: "running ?s"
    by (simp_all add: start_capture_def initialize_camera_def init_driver_def emit_def Let_def)
  show ?thesis
    using start_capture_launches_a_thread [of ?s "\<lambda>n. True"]
      start_capture_launches_a_thread [of ?i "\<lambda>n. True"]
      start_capture_launches_a_thread [of ?i "\<lambda>n. False"] 0 1 2
    by simp
qed

subsection \<open>Exceptions of the callback\<close>

text \<open>
  Claim C9 says that no exception of the callback leaves the loop. The handler is
  \<^verbatim>\<open>except Exception\<close>: a callback that raises \<^verbatim>\<open>SystemExit\<close>, as a call of
  \<^verbatim>\<open>sys.exit()\<close> does, is not caught. The exception leaves the loop in the first
  iteration, nothing is logged and the second frame is never read.
\<close>

theorem system_exit_leaves_the_loop:
  "capture_loop (\<lambda>c f u. (Raises SystemExit, u)) (\<lambda>n. True)
      [(True, Some \<lparr>rows = 1, cols = 1, channels = 3, pixels = [0, 0, 0]\<rparr>),
       (True, Some \<lparr>rows = 1, cols = 1, channels = 3, pixels = [0, 0, 0]\<rparr>)]
      \<lparr>camera_id = 0, width = 640, height = 480, fps = 30,
       exposure = - 4, white_balance = 4000, brightness = 150, contrast = 50,
       cap = Some (VideoCapture True), running = True, capture_thread = Some 0,
       callback = Some (),
       fail_count = 0, trace = [], opened = 1, threads = 1\<rparr>
   = (Some SystemExit,
      \<lparr>camera_id = 0, width = 640, height = 480, fps = 30,
       exposure = - 4, white_balance = 4000, brightness = 150, contrast = 50,
       cap = Some (VideoCapture True), running = True, capture_thread = Some 0,
       callback = Some (),
       fail_count = 0,
       trace = [Cap_read,
                Callback_call \<lparr>rows = 1, cols = 1, channels = 3, pixels = [0, 0, 0]\<rparr>],
       opened = 1, threads = 1\<rparr>)"
  by (simp add: capture_iteration_def on_read_success_def dispatch_callback_def emit_def)

lemma loop_not_running: "\<not> running s \<Longrightarrow> capture_loop run dev rs s = (None, s)"
  by (cases rs) simp_all

text \<open>
  Claim C9, amended. Let the callback, called on a frame read successfully, raise an
  instance of \<^verbatim>\<open>Exception\<close> that the handler can format, and let \<^verbatim>\<open>fps\<close> be positive
  when it has finished. Then the loop catches the exception, logs it as an error and sleeps
  for \<^verbatim>\<open>1 / fps\<close>; the exception does not leave the loop. The loop then tests
  \<^verbatim>\<open>self.running\<close> as it does before every iteration: it goes on with the next read
  when the callback has left \<^verbatim>\<open>running\<close> set, and ends there, without an exception,
  when the callback has cleared it, as a callback that calls \<^verbatim>\<open>stop_capture\<close> does.
\<close>

theorem callback_exception_logged_and_contained:
  assumes "running s" and "cap s = Some h" and "callback s = Some c"
    and "run c f (emit [Callback_call f] ((emit [Cap_read] s)\<lparr>fail_count := 0\<rparr>))
           = (Raises e, s1)"
    and "is_Exception e" and "str_exc e = Inr m" and "0 < fps s1"
  shows "capture_iteration run dev (True, Some f) s
           = (None, emit [Logging ERROR (CallbackFailed e), Sleep (1 / of_int (fps s1))] s1)
       \<and> capture_loop run dev ((True, Some f) # rs) s
           = capture_loop run dev rs
               (emit [Logging ERROR (CallbackFailed e), Sleep (1 / of_int (fps s1))] s1)
       \<and> (\<not> running s1 \<longrightarrow>
            capture_loop run dev ((True, Some f) # rs) s
              = (None, emit [Logging ERROR (CallbackFailed e), Sleep (1 / of_int (fps s1))] s1))
       \<and> (running s1 \<longrightarrow>
            capture_loop run dev ((True, Some f) # r # rs) s
              = (case capture_iteration run dev r
                        (emit [Logging ERROR (CallbackFailed e),
                               Sleep (1 / of_int (fps s1))] s1) of
                   (Some e', s2) \<Rightarrow> (Some e', s2)
                 | (None, s2) \<Rightarrow> capture_loop run dev rs s2))"
proof -
  let ?s' = "emit [Logging ERROR (CallbackFailed e), Sleep (1 / of_int (fps s1))] s1"
  have it: "capture_iteration run dev (True, Some f) s = (None, ?s')"
    using assms
    by (simp add: capture_iteration_def on_read_success_def dispatch_callback_def pace_def
          emit_def)
  have lp: "capture_loop run dev ((True, Some f) # rs) s = capture_loop run dev rs ?s'" for rs
    using assms(1) it by simp
  have r: "running ?s' = running s1" by (simp add: emit_def)
  have stop: "capture_loop run dev rs ?s' = (None, ?s')" if "\<not> running s1"
    using that r by (simp add: loop_not_running)
  have go: "capture_loop run dev (r # rs) ?s'
              = (case capture_iteration run dev r ?s' of
                   (Some e', s2) \<Rightarrow> (Some e', s2)
                 | (None, s2) \<Rightarrow> capture_loop run dev rs s2)" if "running s1"
    using that r by simp
  show ?thesis
    using it lp [of rs] lp [of "r # rs"] stop go by simp
qed

theorem callback_exception_logged_and_contained_witness:
  "capture_loop
      (\<lambda>c f u. case stop_capture True u of
                  (Some e, u') \<Rightarrow> (Raises e, u') | (None, u') \<Rightarrow> (Returns, u'))
      (\<lambda>n. True)
      [(True, Some \<lparr>rows = 1, cols = 1, channels = 3, pixels = [0, 0, 0]\<rparr>),
       (True, Some \<lparr>rows = 1, cols = 1, channels = 3, pixels = [0, 0, 0]\<rparr>)]
      \<lparr>camera_id = 0, width = 640, height = 480, fps = 30,
       exposure = - 4, white_balance = 4000, brightness = 150, contrast = 50,
       cap = Some (VideoCapture True), running = True, capture_thread = Some 0,
       callback = Some (),
       fail_count = 3, trace = [], opened = 1, threads = 1\<rparr>
   = (None,
      \<lparr>camera_id = 0, width = 640, height = 480, fps = 30,
       exposure = - 4, white_balance = 4000, brightness = 150, contrast = 50,
       cap = Some (VideoCapture True), running = False, capture_thread = Some 0,
       callback = Some (),
       fail_count = 0,
       trace = [Cap_read,
                Callback_call \<lparr>rows = 1, cols = 1, channels = 3, pixels = [0, 0, 0]\<rparr>,
                Logging ERROR (CallbackFailed (RuntimeError ''cannot join current thread'')),
                Sleep (1 / 30)],
       opened = 1, threads = 1\<rparr>)
   \<and> capture_loop (\<lambda>c f u. (Raises (ValueError ''bad frame''), u)) (\<lambda>n. True)
      [(True, Some \<lparr>rows = 1, cols = 1, channels = 3, pixels = [0, 0, 0]\<rparr>),
       (False, None)]
      \<lparr>camera_id = 0, width = 640, height = 480, fps = 30,
       exposure = - 4, white_balance = 4000, brightness = 150, contrast = 50,
       cap = Some (VideoCapture True), running = True, capture_thread = Some 0,
       callback = Some (),
       fail_count = 3, trace = [], opened = 1, threads = 1\<rparr>
   = (None,
      \<lparr>camera_id = 0, width = 640, height = 480, fps = 30,
       exposure = - 4, white_balance = 4000, brightness = 150, contrast = 50,
       cap = Some (VideoCapture True), running = True, capture_thread = Some 0,
       callback = Some (),
       fail_count = 1,
       trace = [Cap_read,
                Callback_call \<lparr>rows = 1, cols = 1, channels = 3, pixels = [0, 0, 0]\<rparr>,
                Logging ERROR (CallbackFailed (ValueError ''bad frame'')),
                Sleep (1 / 30),
                Cap_read, Logging ERROR (ReadFailed 1), Sleep (1 / 10)],
       opened = 1, threads = 1\<rparr>)"
proof -
  let ?f = "\<lparr>rows = 1, cols = 1, channels = 3, pixels = [0, 0, 0 :: 8 word]\<rparr>"
  let ?s = "\<lparr>camera_id = 0, width = 640, height = 480, fps = 30,
       exposure = - 4, white_balance = 4000, brightness = 150, contrast = 50,
       cap = Some (VideoCapture True), running = True, capture_thread = Some 0,
       callback = Some (),
       fail_count = 3, trace = [], opened = 1, threads = 1\<rparr>"
  let ?stop = "\<lambda>(c :: unit) (f :: frame) (u :: unit driver).
                 case stop_capture True u of
                   (Some e, u') \<Rightarrow> (Raises e, u') | (None, u') \<Rightarrow> (Returns, u')"
  let ?bad = "\<lambda>(c :: unit) (f :: frame) (u :: unit driver). (Raises (ValueError ''bad frame''), u)"
  let ?u = "emit [Callback_call ?f] ((emit [Cap_read] ?s)\<lparr>fail_count := 0\<rparr>)"
  have 1: "running ?s" and 2: "cap ?s = Some (VideoCapture True)"
    and 3: "callback ?s = Some ()" by simp_all
  have 4: "?stop () ?f ?u
             = (Raises (RuntimeError ''cannot join current thread''), ?u\<lparr>running := False\<rparr>)"
    by (simp add: stop_capture_def emit_def Let_def)
  have 5: "is_Exception (RuntimeError ''cannot join current thread'')"
    and 6: "str_exc (RuntimeError ''cannot join current thread'') = Inr ''cannot join current thread''"
    and 7: "0 < fps (?u\<lparr>running := False\<rparr>)"
    by (simp_all add: emit_def)
  have 8: "?bad () ?f ?u = (Raises (ValueError ''bad frame''), ?u)" by simp
  have 9: "is_Exception (ValueError ''bad frame'')"
    and 10: "str_exc (ValueError ''bad frame'') = Inr ''bad frame''"
    and 11: "0 < fps ?u"
    by (simp_all add: emit_def)
  show ?thesis
    using callback_exception_logged_and_contained
            [where run = ?stop and dev = "\<lambda>n. True" and rs = "[(True, Some ?f)]"
               and r = "(False, None)", OF 1 2 3 4 5 6 7]
          callback_exception_logged_and_contained
            [where run = ?bad and dev = "\<lambda>n. True" and rs = "[(False, None)]"
               and r = "(False, None)", OF 1 2 3 8 9 10 11]
    by (simp add: capture_iteration_def on_read_failure_def emit_def Let_def)
qed

section \<open>Properties of the pipeline\<close>

lemma pp_bind_logging_info:
  "pp_bind (logging_info m) k = (Info m # fst (k ()), snd (k ()))"
  by (simp add: pp_bind_def logging_info_def split: prod.splits)

lemma pp_bind_debug_show:
  "pp_bind (debug_show d n f) k =
     ((if d then [Imshow n f, WaitKey 1] else []) @ fst (k ()), snd (k ()))"
  by (simp add: pp_bind_def debug_show_def split: prod.splits)

lemma pp_bind_cv2_stage:
  "pp_bind (cv2_stage lib c) k =
     (case lib c of
        Inl e \<Rightarrow> ([Cv2 c (Inl e)], Inl e)
      | Inr v \<Rightarrow> (Cv2 c (Inr v) # fst (k v), snd (k v)))"
  by (simp add: pp_bind_def cv2_stage_def split: prod.splits sum.splits)

lemma first_event_of_stage:
  "take 1 (fst (pp_bind (cv2_stage lib c) k)) = [Cv2 c (lib c)]"
  by (cases "lib c") (simp_all add: pp_bind_cv2_stage)

lemmas pp_bind_steps = pp_bind_logging_info pp_bind_debug_show pp_bind_cv2_stage

lemma trace_readers_simps:
  "stage_calls [] = []"
  "stage_calls (e # t) = (if is_cv2 e then e # stage_calls t else stage_calls t)"
  "stage_calls (t @ u) = stage_calls t @ stage_calls u"
  "shown_frames [] = []"
  "shown_frames (e # t) = shown e @ shown_frames t"
  "shown_frames (t @ u) = shown_frames t @ shown_frames u"
  "canny_thresholds [] = []"
  "canny_thresholds (e # t) = canny_args e @ canny_thresholds t"
  "canny_thresholds (t @ u) = canny_thresholds t @ canny_thresholds u"
  by (simp_all add: stage_calls_def shown_frames_def canny_thresholds_def)

lemma agree_return: "agree ([], r) ([], r)"
  by (simp add: agree_def)

lemma agree_stage:
  "(\<And>v. agree (k v) (k' v)) \<Longrightarrow> agree (pp_bind (cv2_stage lib c) k) (pp_bind (cv2_stage lib c) k')"
  by (cases "lib c") (simp_all add: agree_def pp_bind_cv2_stage trace_readers_simps)

lemma agree_debug:
  "agree (k ()) (k' ()) \<Longrightarrow> agree (pp_bind (debug_show d n f) k) (pp_bind (debug_show d n' f) k')"
  by (simp add: agree_def pp_bind_debug_show trace_readers_simps)

lemma agree_log_left:
  "agree (k ()) q \<Longrightarrow> agree (pp_bind (logging_info m) k) q"
  by (simp add: agree_def pp_bind_logging_info trace_readers_simps)

lemma agree_log_right:
  "agree p (k ()) \<Longrightarrow> agree p (pp_bind (logging_info m) k)"
  by (simp add: agree_def pp_bind_logging_info trace_readers_simps)

lemma preprocess_agrees:
  "agree (preprocess lib img debug) (adjust_parameters lib img 10 10 2 (8, 8) 50 150 debug)"
proof (cases img)
  case None
  then show ?thesis by (simp add: preprocess_def adjust_parameters_def agree_def)
next
  case (Some src)
  show ?thesis
    unfolding Some preprocess_def adjust_parameters_def option.case
    by (intro agree_stage agree_log_left agree_debug agree_log_right agree_return)
qed

subsection \<open>The two entry points on the default parameters\<close>

text \<open>
  Claim C5. For every image, every OpenCV library and both values of \<^verbatim>\<open>debug\<close>,
  \<^verbatim>\<open>preprocess\<close> and \<^verbatim>\<open>adjust_parameters\<close> called with its default parameters (10, 10,
  2.0, (8, 8), 50, 150) return the same result, make the same OpenCV calls with the same
  arguments and so get the same output from every stage, and show the same images under
  \<^verbatim>\<open>debug\<close>. They differ in their log lines and in the names of the windows only.
\<close>

theorem entry_points_agree_on_defaults:
  "snd (preprocess lib img debug) = snd (adjust_parameters lib img 10 10 2 (8, 8) 50 150 debug)
   \<and> stage_calls (fst (preprocess lib img debug))
       = stage_calls (fst (adjust_parameters lib img 10 10 2 (8, 8) 50 150 debug))
   \<and> shown_frames (fst (preprocess lib img debug))
       = shown_frames (fst (adjust_parameters lib img 10 10 2 (8, 8) 50 150 debug))"
  using preprocess_agrees [of lib img debug] by (simp add: agree_def)


subsection \<open>The guard on the input image\<close>

text \<open>
  Claim C4 says that a zero-size image is rejected before any stage runs, as an absent
  one is. Both entry points test \<^verbatim>\<open>image is None\<close> only: an array with no rows and no
  columns passes the guard and is handed to the denoising stage, and what the caller sees
  is whatever OpenCV does with it, here an OpenCV error.
\<close>

theorem zero_size_image_reaches_denoising:
  "preprocess (\<lambda>c. Inl (Cv2Error ''empty matrix''))
      (Some \<lparr>rows = 0, cols = 0, channels = 3, pixels = []\<rparr>) False
     = ([Cv2 (FastNlMeansDenoisingColored \<lparr>rows = 0, cols = 0, channels = 3, pixels = []\<rparr>
                10 10 7 21) (Inl (Cv2Error ''empty matrix''))],
        Inl (Cv2Error ''empty matrix''))
   \<and> adjust_parameters (\<lambda>c. Inl (Cv2Error ''empty matrix''))
      (Some \<lparr>rows = 0, cols = 0, channels = 3, pixels = []\<rparr>) 10 10 2 (8, 8) 50 150 False
     = ([Cv2 (FastNlMeansDenoisingColored \<lparr>rows = 0, cols = 0, channels = 3, pixels = []\<rparr>
                10 10 7 21) (Inl (Cv2Error ''empty matrix''))],
        Inl (Cv2Error ''empty matrix''))"
  by (simp add: preprocess_def adjust_parameters_def pp_bind_cv2_stage)

text \<open>
  Claim C4, amended. For an absent image (\<^verbatim>\<open>None\<close>) both entry points raise
  \<^verbatim>\<open>ValueError\<close> at once: no OpenCV call, no log line, no window. Every other image,
  whatever its size, passes the guard, and the first thing either entry point does with it
  is the denoising call.
\<close>

theorem absent_image_rejected_before_any_stage:
  "preprocess lib None debug
     = ([], Inl (ValueError ''input image is empty, check the data source''))
   \<and> adjust_parameters lib None denoise_h denoise_hColor clipLimit tileGridSize
        canny_thresh1 canny_thresh2 debug
     = ([], Inl (ValueError ''input image is empty, check the data source''))
   \<and> take 1 (fst (preprocess lib (Some src) debug))
     = [Cv2 (FastNlMeansDenoisingColored src 10 10 7 21)
          (lib (FastNlMeansDenoisingColored src 10 10 7 21))]
   \<and> take 1 (fst (adjust_parameters lib (Some src) denoise_h denoise_hColor clipLimit
        tileGridSize canny_thresh1 canny_thresh2 debug))
     = [Cv2 (FastNlMeansDenoisingColored src denoise_h denoise_hColor 7 21)
          (lib (FastNlMeansDenoisingColored src denoise_h denoise_hColor 7 21))]"
  unfolding preprocess_def adjust_parameters_def option.case
  by (simp only: first_event_of_stage simp_thms)

subsection \<open>The thresholds of the edge detector\<close>




lemma snd_bind_stage:
  "snd (pp_bind (cv2_stage lib c) k) = (case lib c of Inl e \<Rightarrow> Inl e | Inr v \<Rightarrow> snd (k v))"
  by (cases "lib c") (simp_all add: pp_bind_cv2_stage)

lemma snd_bind_debug: "snd (pp_bind (debug_show d n f) k) = snd (k ())"
  by (simp add: pp_bind_debug_show)

lemma snd_bind_log: "snd (pp_bind (logging_info m) k) = snd (k ())"
  by (simp add: pp_bind_logging_info)




lemma more_readers_simps:
  "stage_outputs [] = []"
  "stage_outputs (e # t) = stage_result e @ stage_outputs t"
  "stage_outputs (t @ u) = stage_outputs t @ stage_outputs u"
  "contrast_outputs [] = []"
  "contrast_outputs (e # t) = contrast_out e @ contrast_outputs t"
  "contrast_outputs (t @ u) = contrast_outputs t @ contrast_outputs u"
  "closing_outputs [] = []"
  "closing_outputs (e # t) = closing_out e @ closing_outputs t"
  "closing_outputs (t @ u) = closing_outputs t @ closing_outputs u"
  by (simp_all add: stage_outputs_def contrast_outputs_def closing_outputs_def)









subsection \<open>The fusion stage\<close>

lemma fifths:
  fixes q m :: nat
  assumes "m < 5"
  shows "cv_round (of_nat q + of_nat m / 5) = (if m \<le> 2 then int q else int q + 1)"
    and "round (of_nat q + of_nat m / 5 :: rat) = (if m \<le> 2 then int q else int q + 1)"
proof -
  from assms have m: "m = 0 \<or> m = 1 \<or> m = 2 \<or> m = 3 \<or> m = 4" by auto
  have fl: "\<lfloor>of_nat q + of_nat m / 5 :: rat\<rfloor> = int q"
    using assms by (intro floor_unique) auto
  show "cv_round (of_nat q + of_nat m / 5) = (if m \<le> 2 then int q else int q + 1)"
    unfolding cv_round_def Let_def fl using m by auto
  show "round (of_nat q + of_nat m / 5 :: rat) = (if m \<le> 2 then int q else int q + 1)"
    using m unfolding round_def
    by (auto intro!: floor_unique)
qed

lemma weighted_sum:
  "(of_nat a * (8 / 10) + of_nat b * (2 / 10) + 0 :: rat)
     = of_nat ((4 * a + b) div 5) + of_nat ((4 * a + b) mod 5) / 5"
proof -
  have "(of_nat (4 * a + b) :: rat) = of_nat (5 * ((4 * a + b) div 5) + (4 * a + b) mod 5)"
    by simp
  then have "(of_nat (4 * a + b) :: rat) / 5
             = of_nat ((4 * a + b) div 5) + of_nat ((4 * a + b) mod 5) / 5"
    by (simp only: of_nat_add of_nat_mult add_divide_distrib of_nat_numeral
          nonzero_mult_div_cancel_left)
  moreover have "(of_nat a * (8 / 10) + of_nat b * (2 / 10) + 0 :: rat) = of_nat (4 * a + b) / 5"
    by simp
  ultimately show ?thesis by simp
qed

lemma blend_rounds:
  fixes a b :: "8 word"
  shows "cv_round (of_nat (unat a) * (8 / 10) + of_nat (unat b) * (2 / 10) + 0)
           = round (8 / 10 * of_nat (unat a) + 2 / 10 * of_nat (unat b) :: rat)"
    and "0 \<le> round (8 / 10 * of_nat (unat a) + 2 / 10 * of_nat (unat b) :: rat)"
    and "round (8 / 10 * of_nat (unat a) + 2 / 10 * of_nat (unat b) :: rat) \<le> 255"
proof -
  let ?n = "4 * unat a + unat b"
  let ?x = "of_nat (unat a) * (8 / 10) + of_nat (unat b) * (2 / 10) + 0 :: rat"
  have x: "?x = of_nat (?n div 5) + of_nat (?n mod 5) / 5"
    by (rule weighted_sum)
  have x': "(8 / 10 * of_nat (unat a) + 2 / 10 * of_nat (unat b) :: rat) = ?x" by simp
  have m: "?n mod 5 < 5" by simp
  have a: "unat a \<le> 255" using unsigned_less [of a, where 'a = nat] by simp
  have b: "unat b \<le> 255" using unsigned_less [of b, where 'a = nat] by simp
  have c: "cv_round ?x = (if ?n mod 5 \<le> 2 then int (?n div 5) else int (?n div 5) + 1)"
    unfolding x by (rule fifths(1) [OF m])
  have r: "round ?x = (if ?n mod 5 \<le> 2 then int (?n div 5) else int (?n div 5) + 1)"
    unfolding x by (rule fifths(2) [OF m])
  show "cv_round ?x = round (8 / 10 * of_nat (unat a) + 2 / 10 * of_nat (unat b) :: rat)"
    unfolding x' using c r by simp
  show "0 \<le> round (8 / 10 * of_nat (unat a) + 2 / 10 * of_nat (unat b) :: rat)"
    unfolding x' r by simp
  have n: "?n \<le> 1275" using a b by simp
  have e: "5 * (?n div 5) + ?n mod 5 = ?n" by (rule mult_div_mod_eq)
  have "?n div 5 < 255 \<or> (?n div 5 = 255 \<and> ?n mod 5 = 0)"
    using n e by linarith
  then show "round (8 / 10 * of_nat (unat a) + 2 / 10 * of_nat (unat b) :: rat) \<le> 255"
    unfolding x' r by auto
qed

lemma blend_fusion:
  "blend (8 / 10) (2 / 10) 0 a b
     = word_of_int (round (8 / 10 * of_nat (unat a) + 2 / 10 * of_nat (unat b) :: rat))"
  using blend_rounds [of a b] by (simp add: blend_def saturate_u8_def)

lemma addWeighted_constant:
  "addWeighted (constant_image r c a) (8 / 10) (constant_image r c b) (2 / 10) 0
     = Inr (constant_image r c
         (word_of_int (round (8 / 10 * of_nat (unat a) + 2 / 10 * of_nat (unat b) :: rat))))"
  unfolding blend_fusion [symmetric]
  by (simp add: addWeighted_def constant_image_def map_replicate zip_replicate)

lemma contrast_outputs_bind_stage:
  "contrast_outputs (fst (pp_bind (cv2_stage lib c) k)) =
     (case lib c of
        Inl e \<Rightarrow> []
      | Inr v \<Rightarrow> contrast_out (Cv2 c (Inr v)) @ contrast_outputs (fst (k v)))"
  by (cases "lib c") (simp_all add: pp_bind_cv2_stage more_readers_simps)

lemma closing_outputs_bind_stage:
  "closing_outputs (fst (pp_bind (cv2_stage lib c) k)) =
     (case lib c of
        Inl e \<Rightarrow> []
      | Inr v \<Rightarrow> closing_out (Cv2 c (Inr v)) @ closing_outputs (fst (k v)))"
  by (cases "lib c") (simp_all add: pp_bind_cv2_stage more_readers_simps)

lemma outputs_bind_debug:
  "contrast_outputs (fst (pp_bind (debug_show d n f) k)) = contrast_outputs (fst (k ()))"
  "closing_outputs (fst (pp_bind (debug_show d n f) k)) = closing_outputs (fst (k ()))"
  by (simp_all add: pp_bind_debug_show more_readers_simps)

lemma outputs_bind_log:
  "contrast_outputs (fst (pp_bind (logging_info m) k)) = contrast_outputs (fst (k ()))"
  "closing_outputs (fst (pp_bind (logging_info m) k)) = closing_outputs (fst (k ()))"
  by (simp_all add: pp_bind_logging_info more_readers_simps)

lemma adjust_parameters_returns_fusion:
  assumes "contrast_outputs (fst (adjust_parameters lib img denoise_h denoise_hColor clipLimit
              tileGridSize canny_thresh1 canny_thresh2 debug)) = [A]"
    and "closing_outputs (fst (adjust_parameters lib img denoise_h denoise_hColor clipLimit
              tileGridSize canny_thresh1 canny_thresh2 debug)) = [B]"
  shows "snd (adjust_parameters lib img denoise_h denoise_hColor clipLimit
              tileGridSize canny_thresh1 canny_thresh2 debug)
           = lib (AddWeighted A (8 / 10) B (2 / 10) 0)"
proof (cases img)
  case None
  with assms(1) show ?thesis by (simp add: adjust_parameters_def more_readers_simps)
next
  case (Some src)
  have "contrast_outputs (fst (adjust_parameters lib img denoise_h denoise_hColor clipLimit
              tileGridSize canny_thresh1 canny_thresh2 debug)) = [A]
      \<longrightarrow> closing_outputs (fst (adjust_parameters lib img denoise_h denoise_hColor clipLimit
              tileGridSize canny_thresh1 canny_thresh2 debug)) = [B]
      \<longrightarrow> snd (adjust_parameters lib img denoise_h denoise_hColor clipLimit
              tileGridSize canny_thresh1 canny_thresh2 debug)
           = lib (AddWeighted A (8 / 10) B (2 / 10) 0)"
    unfolding Some adjust_parameters_def option.case
    by (simp add: contrast_outputs_bind_stage closing_outputs_bind_stage outputs_bind_debug
          outputs_bind_log snd_bind_stage snd_bind_debug snd_bind_log more_readers_simps
          split: sum.split)
  with assms show ?thesis by blast
qed

lemma outputs_of_stage_calls:
  "contrast_outputs (stage_calls t) = contrast_outputs t"
  "closing_outputs (stage_calls t) = closing_outputs t"
proof -
  have "contrast_out e = []" "closing_out e = []" if "\<not> is_cv2 e" for e
    using that by (cases e; simp)+
  then show "contrast_outputs (stage_calls t) = contrast_outputs t"
    "closing_outputs (stage_calls t) = closing_outputs t"
    by (induction t) (auto simp: trace_readers_simps more_readers_simps)
qed

lemma preprocess_returns_fusion:
  assumes "contrast_outputs (fst (preprocess lib img debug)) = [A]"
    and "closing_outputs (fst (preprocess lib img debug)) = [B]"
  shows "snd (preprocess lib img debug) = lib (AddWeighted A (8 / 10) B (2 / 10) 0)"
proof -
  let ?q = "adjust_parameters lib img 10 10 2 (8, 8) 50 150 debug"
  have a: "snd (preprocess lib img debug) = snd ?q"
    and c: "stage_calls (fst (preprocess lib img debug)) = stage_calls (fst ?q)"
    using preprocess_agrees [of lib img debug] by (simp_all add: agree_def)
  have "contrast_outputs (fst ?q) = [A]" "closing_outputs (fst ?q) = [B]"
    using assms outputs_of_stage_calls [of "fst ?q"]
      outputs_of_stage_calls [of "fst (preprocess lib img debug)"] c
    by simp_all
  then show ?thesis
    unfolding a by (rule adjust_parameters_returns_fusion)
qed

text \<open>
  Claim C8. Both entry points return what \<^verbatim>\<open>addWeighted\<close> gives for the output of the
  contrast stage with weight 0.8, the output of the closing stage with weight 0.2 and
  offset 0. Over every library whose \<^verbatim>\<open>addWeighted\<close> is the documented blend, when
  these two outputs are constant images of the values \<open>a\<close> and \<open>b\<close>, the result is the
  constant image of the value \<open>round (0.8 * a + 0.2 * b)\<close>. This value lies between 0 and
  255 for all bytes \<open>a\<close> and \<open>b\<close>, so that nothing is clipped and nothing overflows, and
  it is 0 for two black images and 255 for two white ones.
\<close>

theorem fusion_of_constant_images:
  assumes "blends_as_documented lib"
  shows "(contrast_outputs (fst (preprocess lib img debug)) = [constant_image r c a]
          \<and> closing_outputs (fst (preprocess lib img debug)) = [constant_image r c b]
          \<longrightarrow> snd (preprocess lib img debug)
                = Inr (constant_image r c (word_of_int
                    (round (8 / 10 * of_nat (unat a) + 2 / 10 * of_nat (unat b) :: rat)))))
       \<and> (contrast_outputs (fst (adjust_parameters lib img denoise_h denoise_hColor clipLimit
              tileGridSize canny_thresh1 canny_thresh2 debug)) = [constant_image r c a]
          \<and> closing_outputs (fst (adjust_parameters lib img denoise_h denoise_hColor clipLimit
              tileGridSize canny_thresh1 canny_thresh2 debug)) = [constant_image r c b]
          \<longrightarrow> snd (adjust_parameters lib img denoise_h denoise_hColor clipLimit
              tileGridSize canny_thresh1 canny_thresh2 debug)
                = Inr (constant_image r c (word_of_int
                    (round (8 / 10 * of_nat (unat a) + 2 / 10 * of_nat (unat b) :: rat)))))
       \<and> 0 \<le> round (8 / 10 * of_nat (unat a) + 2 / 10 * of_nat (unat b) :: rat)
       \<and> round (8 / 10 * of_nat (unat a) + 2 / 10 * of_nat (unat b) :: rat) \<le> 255
       \<and> blend (8 / 10) (2 / 10) 0 0 0 = 0
       \<and> blend (8 / 10) (2 / 10) 0 255 255 = 255"
proof -
  have "lib (AddWeighted (constant_image r c a) (8 / 10) (constant_image r c b) (2 / 10) 0)
          = addWeighted (constant_image r c a) (8 / 10) (constant_image r c b) (2 / 10) 0"
    using assms unfolding blends_as_documented_def by blast
  also have "\<dots> = Inr (constant_image r c (word_of_int
               (round (8 / 10 * of_nat (unat a) + 2 / 10 * of_nat (unat b) :: rat))))"
    by (rule addWeighted_constant)
  finally have l: "lib (AddWeighted (constant_image r c a) (8 / 10) (constant_image r c b)
                     (2 / 10) 0)
           = Inr (constant_image r c (word_of_int
               (round (8 / 10 * of_nat (unat a) + 2 / 10 * of_nat (unat b) :: rat))))" .
  have z: "blend (8 / 10) (2 / 10) 0 0 0 = 0" "blend (8 / 10) (2 / 10) 0 255 255 = 255"
    unfolding blend_fusion by simp_all
  show ?thesis
    using l z blend_rounds(2,3) [of a b]
      preprocess_returns_fusion [of lib img debug "constant_image r c a" "constant_image r c b"]
      adjust_parameters_returns_fusion
        [of lib img denoise_h denoise_hColor clipLimit tileGridSize canny_thresh1
            canny_thresh2 debug "constant_image r c a" "constant_image r c b"]
    by simp
qed

theorem fusion_of_constant_images_witness:
  "blends_as_documented
     (\<lambda>c. case c of
             AddWeighted src1 alpha src2 beta gamma \<Rightarrow> addWeighted src1 alpha src2 beta gamma
           | CLAHE_apply cl tg src \<Rightarrow> Inr (constant_image 2 2 255)
           | _ \<Rightarrow> Inr (constant_image 2 2 0))
   \<and> snd (preprocess
        (\<lambda>c. case c of
                AddWeighted src1 alpha src2 beta gamma \<Rightarrow> addWeighted src1 alpha src2 beta gamma
              | CLAHE_apply cl tg src \<Rightarrow> Inr (constant_image 2 2 255)
              | _ \<Rightarrow> Inr (constant_image 2 2 0))
        (Some \<lparr>rows = 2, cols = 2, channels = 3, pixels = [0, 0, 0, 0, 0, 0, 0, 0, 0, 0, 0, 0]\<rparr>)
        False)
     = Inr (constant_image 2 2 204)
   \<and> snd (adjust_parameters
        (\<lambda>c. case c of
                AddWeighted src1 alpha src2 beta gamma \<Rightarrow> addWeighted src1 alpha src2 beta gamma
              | CLAHE_apply cl tg src \<Rightarrow> Inr (constant_image 2 2 255)
              | _ \<Rightarrow> Inr (constant_image 2 2 0))
        (Some \<lparr>rows = 2, cols = 2, channels = 3, pixels = [0, 0, 0, 0, 0, 0, 0, 0, 0, 0, 0, 0]\<rparr>)
        10 10 2 (8, 8) 50 150 False)
     = Inr (constant_image 2 2 204)"
proof -
  let ?lib = "\<lambda>c. case c of
             AddWeighted src1 alpha src2 beta gamma \<Rightarrow> addWeighted src1 alpha src2 beta gamma
           | CLAHE_apply cl tg src \<Rightarrow> Inr (constant_image 2 2 255)
           | _ \<Rightarrow> Inr (constant_image 2 2 0)"
  let ?img = "Some \<lparr>rows = 2, cols = 2, channels = 3,
                    pixels = [0, 0, 0, 0, 0, 0, 0, 0, 0, 0, 0, 0 :: 8 word]\<rparr>"
  have b: "blends_as_documented ?lib"
    by (simp add: blends_as_documented_def)
  have p: "contrast_outputs (fst (preprocess ?lib ?img False)) = [constant_image 2 2 255]"
    "closing_outputs (fst (preprocess ?lib ?img False)) = [constant_image 2 2 0]"
    by (simp_all add: preprocess_def contrast_outputs_bind_stage closing_outputs_bind_stage
          outputs_bind_debug outputs_bind_log more_readers_simps split: sum.split)
  have q: "contrast_outputs (fst (adjust_parameters ?lib ?img 10 10 2 (8, 8) 50 150 False))
             = [constant_image 2 2 255]"
    "closing_outputs (fst (adjust_parameters ?lib ?img 10 10 2 (8, 8) 50 150 False))
             = [constant_image 2 2 0]"
    by (simp_all add: adjust_parameters_def contrast_outputs_bind_stage
          closing_outputs_bind_stage outputs_bind_debug outputs_bind_log more_readers_simps split: sum.split)
  show ?thesis
    using b p q fusion_of_constant_images
              [OF b, where img = ?img and debug = False and r = 2 and c = 2 and a = 255
                 and b = 0 and denoise_h = 10 and denoise_hColor = 10 and clipLimit = 2
                 and tileGridSize = "(8, 8)" and ?canny_thresh1.0 = 50
                 and ?canny_thresh2.0 = 150]
    by simp
qed

end
